theory Spec2Isabelle
  imports Main "HOL-Library.Char_ord" "HOL-Library.List_Lexorder"
begin

section \<open>Python values, exceptions and string helpers\<close>

text \<open>
  The job definitions handled by \<^verbatim>\<open>createjobs.py\<close> are plain Python data: what
  \<^verbatim>\<open>json.load\<close> returns and what \<^verbatim>\<open>definejobs\<close> builds. They are modelled
  by the datatype \<open>pyval\<close>: \<^verbatim>\<open>None\<close>, booleans, (unbounded) integers, strings,
  lists and dictionaries with string keys (kept as association lists in insertion order).
  \<open>PObj\<close> stands for an object of any other type (a function, a datetime), known only
  by a name.
\<close>

datatype pyval =
    PNone
  | PBool bool
  | PInt int
  | PStr string
  | PList "pyval list"
  | PDict "(string \<times> pyval) list"
  | PObj string

text \<open>
  Every \<^verbatim>\<open>raise\<close> of the source and every failure of a Python primitive that the
  code can run into is a value of \<open>exn\<close>. \<open>DASKjobsError\<close> carries its two
  attributes \<^verbatim>\<open>message\<close> and \<^verbatim>\<open>comment\<close>.
\<close>

datatype exn =
    StopIteration
  | DASKjobsError string string
  | KeyError
  | TypeError
  | IndexError
  | AttributeError
  | UnboundLocalError
  | ZeroDivisionError
  | FileNotFoundError
  | OverflowError

text \<open>Sequencing of computations that may raise.\<close>

definition bind_exn :: "exn + 'a \<Rightarrow> ('a \<Rightarrow> exn + 'b) \<Rightarrow> exn + 'b" where
  "bind_exn m f = (case m of Inl e \<Rightarrow> Inl e | Inr x \<Rightarrow> f x)"

text \<open>
  The subscript \<^verbatim>\<open>obj[key]\<close>. A dictionary raises \<^verbatim>\<open>KeyError\<close> for a missing key
  and \<^verbatim>\<open>TypeError\<close> for an unhashable one; a list or a string takes an integer index
  (a boolean counts as 0 or 1, a negative index counts from the end); anything else
  is not subscriptable.
\<close>

definition index_list :: "'a list \<Rightarrow> int \<Rightarrow> exn + 'a" where
  "index_list xs i =
     (if 0 \<le> i \<and> i < int (length xs) then Inr (xs ! nat i)
      else if i < 0 \<and> - int (length xs) \<le> i then Inr (xs ! nat (int (length xs) + i))
      else Inl IndexError)"

fun getitem :: "pyval \<Rightarrow> pyval \<Rightarrow> exn + pyval" where
  "getitem (PDict kvs) (PStr k) = (case map_of kvs k of None \<Rightarrow> Inl KeyError | Some v \<Rightarrow> Inr v)"
| "getitem (PDict kvs) (PList ks) = Inl TypeError"
| "getitem (PDict kvs) (PDict ks) = Inl TypeError"
| "getitem (PDict kvs) k = Inl KeyError"
| "getitem (PList xs) (PInt i) = index_list xs i"
| "getitem (PList xs) (PBool b) = index_list xs (if b then 1 else 0)"
| "getitem (PStr s) (PInt i) = map_sum id (\<lambda>c. PStr [c]) (index_list s i)"
| "getitem (PStr s) (PBool b) = map_sum id (\<lambda>c. PStr [c]) (index_list s (if b then 1 else 0))"
| "getitem v k = Inl TypeError"

text \<open>
  The comparison \<^verbatim>\<open>a != b\<close> on the values that can be a processing center (a
  dictionary key or a list index): Python equates \<^verbatim>\<open>True\<close> with 1 and
  \<^verbatim>\<open>False\<close> with 0, and is structural otherwise.
\<close>

fun py_ne :: "pyval \<Rightarrow> pyval \<Rightarrow> bool" where
  "py_ne (PBool b) (PInt i) = ((if b then 1 else 0) \<noteq> i)"
| "py_ne (PInt i) (PBool b) = (i \<noteq> (if b then 1 else 0))"
| "py_ne a b = (a \<noteq> b)"

text \<open>\<^verbatim>\<open>os.path.join(a, b)\<close> on POSIX paths; both arguments must be strings.\<close>

definition path_join :: "string \<Rightarrow> string \<Rightarrow> string" where
  "path_join a b =
     (if b \<noteq> [] \<and> hd b = CHR ''/'' then b
      else if a = [] \<or> last a = CHR ''/'' then a @ b
      else a @ ''/'' @ b)"

fun os_path_join :: "pyval \<Rightarrow> pyval \<Rightarrow> exn + string" where
  "os_path_join (PStr a) (PStr b) = Inr (path_join a b)"
| "os_path_join a b = Inl TypeError"

text \<open>\<^verbatim>\<open>s.split(sep)\<close> for a one-character separator, and \<^verbatim>\<open>sep.join(parts)\<close>.\<close>

fun split_on :: "char \<Rightarrow> string \<Rightarrow> string list" where
  "split_on c [] = [[]]"
| "split_on c (x # xs) =
     (if x = c then [] # split_on c xs
      else (case split_on c xs of [] \<Rightarrow> [[x]] | p # ps \<Rightarrow> (x # p) # ps))"

fun join_with :: "string \<Rightarrow> string list \<Rightarrow> string" where
  "join_with s [] = []"
| "join_with s [p] = p"
| "join_with s (p # q # ps) = p @ s @ join_with s (q # ps)"

text \<open>
  \<^verbatim>\<open>re.search("[._]nc$", f)\<close>: the name ends with \<^verbatim>\<open>.nc\<close> or \<^verbatim>\<open>_nc\<close>, where
  \<^verbatim>\<open>$\<close> also matches just before a newline that ends the string.
\<close>

definition nc_suffix :: "string \<Rightarrow> bool" where
  "nc_suffix f = (let t = drop (length f - 3) f in t = ''.nc'' \<or> t = ''_nc'')"

definition re_search_nc :: "string \<Rightarrow> bool" where
  "re_search_nc f = (nc_suffix f \<or> (f \<noteq> [] \<and> last f = CHR 0x0A \<and> nc_suffix (butlast f)))"

text \<open>
  Decimal formatting of integers, as the format specifications \<^verbatim>\<open>{:06d}\<close>,
  \<^verbatim>\<open>{:02d}\<close> (zero fill, after the sign) and \<^verbatim>\<open>{:4d}\<close> (space fill) do it.
\<close>

definition digit :: "nat \<Rightarrow> char" where
  "digit d = char_of (48 + d)"

fun decimal :: "nat \<Rightarrow> string" where
  "decimal n = (if n < 10 then [digit n] else decimal (n div 10) @ [digit (n mod 10)])"

declare decimal.simps [simp del]

definition format_d :: "char \<Rightarrow> nat \<Rightarrow> int \<Rightarrow> string" where
  "format_d fill width i =
     (let ds = decimal (nat \<bar>i\<bar>);
          sign = (if i < 0 then ''-'' else [])
      in if fill = CHR ''0''
         then sign @ replicate (width - length sign - length ds) fill @ ds
         else replicate (width - length sign - length ds) fill @ sign @ ds)"

section \<open>The job file iterator: class DASKjobs\<close>

text \<open>
  The storage listing \<^verbatim>\<open>s3.ls(path)\<close> is a collaborator of the code: a function that
  returns the listed paths or raises. A boto3 session is known by the two attributes the
  code reads; \<^verbatim>\<open>session=None\<close> is \<open>None\<close>.
\<close>

type_synonym listing = "string \<Rightarrow> exn + string list"

record session =
  profile_name :: string
  region_name :: string

text \<open>
  The attributes of a \<^verbatim>\<open>DASKjobs\<close> object. (\<^verbatim>\<open>self.s3\<close> is the listing, passed
  to each method.)
\<close>

record DASKjobs =
  jobs :: "pyval list"
  prefixes :: pyval
  inputfiles :: "string list"

text \<open>
  \<^verbatim>\<open>loadfiles\<close>: the \<^verbatim>\<open>.nc\<close> files of the directory of one job. The filter is
  applied a second time when it found nothing, as in the source; an empty result is
  logged and returned (the \<^verbatim>\<open>raise\<close> there is commented out).
\<close>

definition loadfiles :: "listing \<Rightarrow> pyval \<Rightarrow> pyval \<Rightarrow> exn + string list" where
  "loadfiles ls pfxs job =
     bind_exn (getitem job (PStr ''file_type'')) (\<lambda>file_type.
     bind_exn (getitem job (PStr ''processing_center'')) (\<lambda>processing_center.
     bind_exn (getitem pfxs processing_center) (\<lambda>input_root_path.
     bind_exn (getitem job (PStr ''input_relative_dir'')) (\<lambda>input_relative_dir.
     bind_exn (os_path_join input_root_path input_relative_dir) (\<lambda>input_path.
     bind_exn (ls input_path) (\<lambda>files.
       let found = filter re_search_nc files;
           found = (if length found = 0 then filter re_search_nc files
                          else found)
       in Inr found))))))"

text \<open>
  \<^verbatim>\<open>__init__\<close>: the four checks of the input, in the source's order, each raising
  \<^verbatim>\<open>DASKjobsError\<close> with its own message; then the listing client is built, which
  reads \<^verbatim>\<open>session.region_name\<close> on both branches (an \<^verbatim>\<open>AttributeError\<close> when the
  session is \<^verbatim>\<open>None\<close>); then the files of the first job are loaded.
\<close>

definition DASKjobs_init :: "listing \<Rightarrow> pyval \<Rightarrow> session option \<Rightarrow> exn + DASKjobs" where
  "DASKjobs_init ls job_definitions sess =
     (case job_definitions of
        PDict kvs \<Rightarrow>
          if ''prefixes'' \<notin> set (map fst kvs) then
            Inl (DASKjobsError ''InvalidJobDefinitionsKeys''
                  ''job_definitions does not have key prefixes'')
          else if ''jobs'' \<notin> set (map fst kvs) then
            Inl (DASKjobsError ''InvalidJobDefinitionsKeys''
                  ''job_definitions does not have key jobs'')
          else
            (case map_of kvs ''jobs'' of
               Some (PList js) \<Rightarrow>
                 if length js = 0 then
                   Inl (DASKjobsError ''NoJobDefinitionsJobs''
                         ''no jobs in job_definitions['jobs']'')
                 else
                   (case sess of
                      None \<Rightarrow> Inl AttributeError
                    | Some s \<Rightarrow>
                        (case map_of kvs ''prefixes'' of
                           None \<Rightarrow> Inl KeyError
                         | Some ps \<Rightarrow>
                             bind_exn (loadfiles ls ps (hd js)) (\<lambda>fs.
                               Inr \<lparr> jobs = js, prefixes = ps, inputfiles = fs \<rparr>)))
             | _ \<Rightarrow>
                 Inl (DASKjobsError ''InvalidJobDefinitionsJobs''
                       ''job_definitions['jobs'] is not a list''))
      | _ \<Rightarrow>
          Inl (DASKjobsError ''InvalidJobDefinitions'' ''job_definitions is not a dictionary''))"

text \<open>
  \<^verbatim>\<open>__next__\<close> returns the tuple
  \<^verbatim>\<open>(file_type, processing_center, input_root_path, input_relative_path)\<close> or raises;
  either way the object keeps the changes made until then (the popped job, the newly
  loaded files), so the result is paired with the new state. \<open>advance\<close> is the first
  block of the method (the test of the buffer, the pop, the load of the next job),
  \<open>current\<close> is the rest. A root path that is not a string does not get as far as
  \<open>current\<close>, since \<^verbatim>\<open>loadfiles\<close> has joined it to a directory before; the
  case is a \<^verbatim>\<open>TypeError\<close> there.
\<close>

type_synonym tuple4 = "pyval \<times> pyval \<times> string \<times> string"

definition advance :: "listing \<Rightarrow> DASKjobs \<Rightarrow> (exn + unit) \<times> DASKjobs" where
  "advance ls self =
     (if length (inputfiles self) = 0 then
        (case jobs self of
           [] \<Rightarrow> (Inl IndexError, self)
         | last_job # rest \<Rightarrow>
             let self = self\<lparr> jobs := rest \<rparr> in
             if length (jobs self) = 0 then (Inl StopIteration, self)
             else (case loadfiles ls (prefixes self) (hd (jobs self)) of
                     Inl e \<Rightarrow> (Inl e, self)
                   | Inr fs \<Rightarrow> (Inr (), self\<lparr> inputfiles := fs \<rparr>)))
      else (Inr (), self))"

definition current :: "DASKjobs \<Rightarrow> (exn + tuple4) \<times> DASKjobs" where
  "current self =
     (case jobs self of
        [] \<Rightarrow> (Inl IndexError, self)
      | job # _ \<Rightarrow>
          (case getitem job (PStr ''file_type'') of Inl e \<Rightarrow> (Inl e, self) | Inr file_type \<Rightarrow>
          (case getitem job (PStr ''processing_center'') of Inl e \<Rightarrow> (Inl e, self)
           | Inr processing_center \<Rightarrow>
          (case getitem (prefixes self) processing_center of Inl e \<Rightarrow> (Inl e, self)
           | Inr root \<Rightarrow>
          (case inputfiles self of
             [] \<Rightarrow> (Inl IndexError, self)
           | inputfile # rest \<Rightarrow>
               (case root of
                  PStr input_root_path \<Rightarrow>
                    let pathsplit = split_on CHR ''/'' inputfile;
                        rootpathsplit = split_on CHR ''/'' (drop 5 input_root_path);
                        input_relative_path =
                          join_with ''/'' (drop (length rootpathsplit) pathsplit)
                    in (Inr (file_type, processing_center, input_root_path, input_relative_path),
                        self\<lparr> inputfiles := rest \<rparr>)
                | _ \<Rightarrow> (Inl TypeError, self)))))))"

definition DASKjobs_next :: "listing \<Rightarrow> DASKjobs \<Rightarrow> (exn + tuple4) \<times> DASKjobs" where
  "DASKjobs_next ls self =
     (case advance ls self of
        (Inl e, self') \<Rightarrow> (Inl e, self')
      | (Inr u, self') \<Rightarrow> current self')"

text \<open>
  Each successful \<^verbatim>\<open>__next__\<close> either drops a job or keeps the jobs and drops a
  buffered file, so an iterator can be run to its end.
\<close>

lemma advance_measure:
  "advance ls self = (Inr u, self') \<Longrightarrow>
     length (jobs self') < length (jobs self) \<or>
     (jobs self' = jobs self \<and> inputfiles self' = inputfiles self \<and> inputfiles self \<noteq> [])"
  by (auto simp: advance_def Let_def split: if_splits list.splits sum.splits)

lemma current_measure:
  "current self = (Inr t, self') \<Longrightarrow>
     jobs self' = jobs self \<and> length (inputfiles self') < length (inputfiles self)"
  by (auto simp: current_def Let_def split: list.splits sum.splits pyval.splits)

lemma DASKjobs_next_measure:
  "DASKjobs_next ls self = (Inr t, self') \<Longrightarrow>
     length (jobs self') < length (jobs self) \<or>
     (length (jobs self') = length (jobs self) \<and>
      length (inputfiles self') < length (inputfiles self))"
  unfolding DASKjobs_next_def
  by (auto split: prod.splits sum.splits dest!: advance_measure current_measure)

text \<open>
  A \<^verbatim>\<open>for\<close> statement calls \<^verbatim>\<open>__next__\<close> until it raises. \<open>drain\<close> is what the
  iterator hands to such a loop: the tuples it yields, in order, and the exception that
  ends the iteration (\<open>StopIteration\<close> when the jobs are exhausted, anything else
  propagates out of the loop).
\<close>

function drain :: "listing \<Rightarrow> DASKjobs \<Rightarrow> tuple4 list \<times> exn" where
  "drain ls self =
     (case DASKjobs_next ls self of
        (Inl e, self') \<Rightarrow> ([], e)
      | (Inr t, self') \<Rightarrow> (t # fst (drain ls self'), snd (drain ls self')))"
  by pat_completeness auto
termination
  apply (relation "measures [\<lambda>(ls, self). length (jobs self),
                             \<lambda>(ls, self). length (inputfiles self)]")
  apply simp
  using DASKjobs_next_measure [OF sym] apply fastforce
  using DASKjobs_next_measure [OF sym] apply fastforce
  done

section \<open>The batch splitter: \<^verbatim>\<open>define_batchprocess_jobs\<close>\<close>

text \<open>
  A batch manifest is the dictionary \<^verbatim>\<open>out\<close> of the source. The effects of the
  splitter are the files it writes (each write recorded with its file name, in order)
  and the messages it logs.
\<close>

record manifest =
  InputPrefix :: string
  ProcessingCenter :: pyval
  InputFiles :: "string list"

datatype logmsg =
    ERROR_input_root_path string string
  | ERROR_processing_center pyval pyval
  | ERROR_session_needed
  | INFO_writing_to string

record world =
  written :: "(string \<times> manifest) list"
  logged :: "logmsg list"

text \<open>
  \<^verbatim>\<open>writeOutputJSONfile\<close>: a name starting with \<^verbatim>\<open>s3://\<close> is uploaded, which needs
  a session (without one the function logs an error and returns \<^verbatim>\<open>"fail"\<close>, writing
  nothing); any other name is written locally.
\<close>

definition writeOutputJSONfile :: "manifest \<Rightarrow> string \<Rightarrow> session option \<Rightarrow> world \<Rightarrow> world" where
  "writeOutputJSONfile output_structure output_file sess w =
     (let w = w\<lparr> logged := logged w @ [INFO_writing_to output_file] \<rparr> in
      if take 5 output_file = ''s3://'' then
        (case sess of
           None \<Rightarrow> w\<lparr> logged := logged w @ [ERROR_session_needed] \<rparr>
         | Some s \<Rightarrow> w\<lparr> written := written w @ [(output_file, output_structure)] \<rparr>)
      else w\<lparr> written := written w @ [(output_file, output_structure)] \<rparr>)"

text \<open>
  The local variables of \<^verbatim>\<open>define_batchprocess_jobs\<close>. \<^verbatim>\<open>out\<close> is not bound
  before the loop: \<open>None\<close> there is the unbound variable. The two \<^verbatim>\<open>last_\<close>
  variables start as Python's \<^verbatim>\<open>None\<close>.
\<close>

record locals =
  njobs :: int
  nfiles :: int
  last_input_root_path :: "string option"
  last_processing_center :: pyval
  out :: "manifest option"

definition initialize :: locals where
  "initialize = \<lparr> njobs = 0, nfiles = 0, last_input_root_path = None,
                  last_processing_center = PNone, out = None \<rparr>"

datatype flow = Continue | Return | Raise exn

text \<open>
  One pass through the body of the loop, for one tuple. The template is the function
  \<^verbatim>\<open>template.format\<close> from an index to a file name. \<^verbatim>\<open>jobsperfile\<close> is an
  integer; the remainder \<^verbatim>\<open>njobs % jobsperfile\<close> raises for 0 and has the sign of
  \<^verbatim>\<open>jobsperfile\<close> otherwise, as \<open>mod\<close> on \<open>int\<close> has.
\<close>

definition loop_body ::
  "(int \<Rightarrow> string) \<Rightarrow> int \<Rightarrow> session option \<Rightarrow> tuple4 \<Rightarrow> locals \<times> world
     \<Rightarrow> flow \<times> locals \<times> world" where
  "loop_body template jobsperfile sess t lw =
     (case t of (file_type, processing_center, input_root_path, input_relative_path) \<Rightarrow>
      case lw of (l, w) \<Rightarrow>
      if last_input_root_path l \<noteq> None \<and> Some input_root_path \<noteq> last_input_root_path l then
        (Return, l, w\<lparr> logged := logged w @
           [ERROR_input_root_path (the (last_input_root_path l)) input_root_path] \<rparr>)
      else if last_processing_center l \<noteq> PNone \<and>
              py_ne processing_center (last_processing_center l) then
        (Return, l, w\<lparr> logged := logged w @
           [ERROR_processing_center (last_processing_center l) processing_center] \<rparr>)
      else
        let l = l\<lparr> last_input_root_path := Some input_root_path,
                   last_processing_center := processing_center \<rparr>
        in
        if jobsperfile = 0 then (Raise ZeroDivisionError, l, w)
        else
          let l = (if njobs l mod jobsperfile = 0
                   then l\<lparr> out := Some \<lparr> InputPrefix = input_root_path,
                                         ProcessingCenter = processing_center,
                                         InputFiles = [] \<rparr> \<rparr>
                   else l)
          in
          (case out l of
             None \<Rightarrow> (Raise UnboundLocalError, l, w)
           | Some m \<Rightarrow>
               let m = m\<lparr> InputFiles := InputFiles m @ [input_relative_path] \<rparr>;
                   l = l\<lparr> out := Some m, njobs := njobs l + 1 \<rparr>
               in
               if njobs l mod jobsperfile = 0 then
                 let l = l\<lparr> nfiles := nfiles l + 1 \<rparr>;
                     outputJSONfile = template (nfiles l)
                 in (Continue, l, writeOutputJSONfile m outputJSONfile sess w)
               else (Continue, l, w)))"

text \<open>The loop over the tuples the iterator yields; \<^verbatim>\<open>return\<close> and a raise end it.\<close>

fun for_loop ::
  "(int \<Rightarrow> string) \<Rightarrow> int \<Rightarrow> session option \<Rightarrow> tuple4 list \<Rightarrow> locals \<times> world
     \<Rightarrow> flow \<times> locals \<times> world" where
  "for_loop template jobsperfile sess [] lw = (Continue, lw)"
| "for_loop template jobsperfile sess (t # ts) lw =
     (case loop_body template jobsperfile sess t lw of
        (Continue, lw') \<Rightarrow> for_loop template jobsperfile sess ts lw'
      | r \<Rightarrow> r)"

text \<open>
  The statements after the loop: the test \<^verbatim>\<open>len(out['InputFiles']) > 0\<close> reads
  \<^verbatim>\<open>out\<close>, which is unbound when the loop body never ran.
\<close>

datatype outcome = Returned | Raised exn

definition after_loop ::
  "(int \<Rightarrow> string) \<Rightarrow> session option \<Rightarrow> locals \<times> world \<Rightarrow> outcome \<times> world" where
  "after_loop template sess lw =
     (case lw of (l, w) \<Rightarrow>
      case out l of
        None \<Rightarrow> (Raised UnboundLocalError, w)
      | Some m \<Rightarrow>
          if length (InputFiles m) > 0 then
            let l = l\<lparr> nfiles := nfiles l + 1 \<rparr>;
                outputJSONfile = template (nfiles l)
            in (Returned, writeOutputJSONfile m outputJSONfile sess w)
          else (Returned, w))"

text \<open>
  The splitter on the stream of an iterator: the tuples \<open>ts\<close> it yields and the
  exception \<open>e\<close> that ends it.
\<close>

definition split_stream ::
  "(int \<Rightarrow> string) \<Rightarrow> int \<Rightarrow> session option \<Rightarrow> tuple4 list \<times> exn \<Rightarrow> world
     \<Rightarrow> outcome \<times> world" where
  "split_stream template jobsperfile sess stream w =
     (case stream of (ts, e) \<Rightarrow>
      case for_loop template jobsperfile sess ts (initialize, w) of
        (Return, l, w') \<Rightarrow> (Returned, w')
      | (Raise x, l, w') \<Rightarrow> (Raised x, w')
      | (Continue, l, w') \<Rightarrow>
          if e = StopIteration then after_loop template sess (l, w')
          else (Raised e, w'))"


section \<open>The job definition builder: definejobs\<close>

subsection \<open>Paths, prefixes and dates\<close>

text \<open>
  \<^verbatim>\<open>os.path.split(p)[1]\<close>: what follows the last slash. \<^verbatim>\<open>re.search("^abc", s)\<close> for
  a literal \<^verbatim>\<open>abc\<close> is a test of the beginning of \<open>s\<close>, and \<^verbatim>\<open>"abc" in s\<close> a search
  for a substring. \<^verbatim>\<open>os.path.join\<close> of several parts joins them from the left.
\<close>

definition path_tail :: "string \<Rightarrow> string" where
  "path_tail p = rev (takeWhile (\<lambda>c. c \<noteq> CHR ''/'') (rev p))"

definition starts_with :: "string \<Rightarrow> string \<Rightarrow> bool" where
  "starts_with pat s = (take (length pat) s = pat)"

fun contains :: "string \<Rightarrow> string \<Rightarrow> bool" where
  "contains pat [] = (pat = [])"
| "contains pat (c # cs) = (starts_with pat (c # cs) \<or> contains pat cs)"

definition join_all :: "string \<Rightarrow> string list \<Rightarrow> string" where
  "join_all a ps = foldl path_join a ps"

text \<open>
  Dates are proleptic Gregorian ordinals (\<^verbatim>\<open>datetime.toordinal\<close>); year, month and day
  are computed from the ordinal as Python's \<^verbatim>\<open>datetime\<close> module does, for the
  ordinals that a \<^verbatim>\<open>datetime\<close> can hold: from 1 (0001-01-01) to 3652059
  (9999-12-31). The time of day of the two ends of the range plays no role: the loop
  compares midnight of a day with the last day.
\<close>

definition days_before_year :: "int \<Rightarrow> int" where
  "days_before_year y = (y - 1) * 365 + (y - 1) div 4 - (y - 1) div 100 + (y - 1) div 400"

definition days_before_month :: "int \<Rightarrow> int" where
  "days_before_month m = [0, 0, 31, 59, 90, 120, 151, 181, 212, 243, 273, 304, 334] ! nat m"

definition days_in_month :: "int \<Rightarrow> int" where
  "days_in_month m = [0, 31, 28, 31, 30, 31, 30, 31, 31, 30, 31, 30, 31] ! nat m"

definition ord2ymd :: "int \<Rightarrow> int \<times> int \<times> int" where
  "ord2ymd ordinal =
     (let n = ordinal - 1;
          n400 = n div 146097; n = n mod 146097;
          n100 = n div 36524; n = n mod 36524;
          n4 = n div 1461; n = n mod 1461;
          n1 = n div 365; n = n mod 365;
          year = n400 * 400 + 1 + n100 * 100 + n4 * 4 + n1
      in if n1 = 4 \<or> n100 = 4 then (year - 1, 12, 31)
         else
           let leapyear = (n1 = 3 \<and> (n4 \<noteq> 24 \<or> n100 = 3));
               month = (n + 50) div 32;
               preceding = days_before_month month + (if month > 2 \<and> leapyear then 1 else 0)
           in if preceding > n
              then let month = month - 1;
                       preceding = preceding -
                         (days_in_month month + (if month = 2 \<and> leapyear then 1 else 0))
                   in (year, month, n - preceding + 1)
              else (year, month, n - preceding + 1))"

definition max_ordinal :: int where
  "max_ordinal = 3652059"

text \<open>
  \<^verbatim>\<open>date.strftime("%Y-%m-%d")\<close> and \<^verbatim>\<open>date.isoformat()[:10]\<close>. (For years before
  1000 the C library behind \<^verbatim>\<open>strftime\<close> may leave the year unpadded; the model pads
  it as \<^verbatim>\<open>isoformat\<close> does.)
\<close>

definition iso_date :: "int \<Rightarrow> int \<Rightarrow> int \<Rightarrow> string" where
  "iso_date year month day =
     format_d CHR ''0'' 4 year @ ''-'' @ format_d CHR ''0'' 2 month @ ''-'' @
     format_d CHR ''0'' 2 day"

subsection \<open>Collaborators and local state\<close>

text \<open>
  What \<^verbatim>\<open>definejobs\<close> takes from outside the file: the storage listing \<^verbatim>\<open>s3.ls\<close>, the
  local file system (\<^verbatim>\<open>os.path.isdir\<close>, \<^verbatim>\<open>os.listdir\<close>), the registries
  \<^verbatim>\<open>reformatters\<close> (a dictionary of dictionaries), \<^verbatim>\<open>valid_missions['aws']\<close> and
  \<^verbatim>\<open>get_receiver_satellites("aws", mission=...)\<close> (each satellite gives a mission
  name per processing center), and the regular expression engine for the one pattern
  that is built from data: \<open>re_search_group pattern s\<close> is
  \<^verbatim>\<open>re.search(pattern, s)\<close> followed by \<^verbatim>\<open>.group(1)\<close>, \<open>None\<close> when there is no match.
\<close>

record env =
  s3_ls :: listing
  isdir :: "string \<Rightarrow> bool"
  listdir :: "string \<Rightarrow> string list"
  reformatters :: "(string \<times> (string \<times> pyval) list) list"
  valid_missions_aws :: "string list"
  get_receiver_satellites :: "string \<Rightarrow> (string \<times> string) list list"
  re_search_group :: "string \<Rightarrow> string \<Rightarrow> string option"

datatype dmsg =
    LogError string
  | LogInfo string
  | LogInfoJob pyval
  | LogInfoSummary pyval nat
  | LogException exn

text \<open>
  The variables of \<^verbatim>\<open>definejobs\<close> that live across iterations of its loops: the four
  prefixes (arguments that are assigned when \<^verbatim>\<open>None\<close>), \<^verbatim>\<open>level\<close>,
  \<^verbatim>\<open>jpl_file_type\<close> and \<^verbatim>\<open>subdirs\<close> (unbound at first, and left as they are on
  some paths), and the list \<^verbatim>\<open>jobs\<close>. The state also records the log and the paths
  that were listed, in order.
\<close>

record dstate =
  UCARprefix :: "string option"
  ROMSAFprefix :: "string option"
  JPLprefix :: "string option"
  EUMETSATprefix :: "string option"
  level :: "string option"
  jpl_file_type :: "string option"
  subdirs :: "string list option"
  joblist :: "pyval list"
  dlog :: "dmsg list"
  scanned :: "string list"

definition log_msg :: "dmsg \<Rightarrow> dstate \<Rightarrow> dstate" where
  "log_msg m st = st\<lparr> dlog := dlog st @ [m] \<rparr>"

definition append_job :: "pyval \<Rightarrow> dstate \<Rightarrow> dstate" where
  "append_job job st = log_msg (LogInfoJob job) (st\<lparr> joblist := joblist st @ [job] \<rparr>)"

definition do_ls :: "env \<Rightarrow> string \<Rightarrow> dstate \<Rightarrow> (exn + string list) \<times> dstate" where
  "do_ls env path st = (s3_ls env path, st\<lparr> scanned := scanned st @ [path] \<rparr>)"

text \<open>
  Loops: the body of a \<^verbatim>\<open>for\<close> loop ends normally or by \<^verbatim>\<open>continue\<close> (\<open>Next\<close>), by
  \<^verbatim>\<open>break\<close>, or by an exception that nothing catches.
\<close>

datatype ctl = Next | Break | Throw exn

fun for_each :: "('a \<Rightarrow> 's \<Rightarrow> ctl \<times> 's) \<Rightarrow> 'a list \<Rightarrow> 's \<Rightarrow> ctl \<times> 's" where
  "for_each body [] st = (Next, st)"
| "for_each body (x # xs) st =
     (case body x st of
        (Next, st') \<Rightarrow> for_each body xs st'
      | (Break, st') \<Rightarrow> (Next, st')
      | (Throw e, st') \<Rightarrow> (Throw e, st'))"

definition and_then :: "ctl \<times> 's \<Rightarrow> ('s \<Rightarrow> ctl \<times> 's) \<Rightarrow> ctl \<times> 's" where
  "and_then r f = (case r of (Next, st) \<Rightarrow> f st | other \<Rightarrow> other)"

text \<open>
  \<^verbatim>\<open>"s3://" + reformatters[center][key]\<close>, and the sorted list of the distinct mission
  names that the satellites of a mission have at one center.
\<close>

definition bucket :: "env \<Rightarrow> string \<Rightarrow> string \<Rightarrow> exn + string" where
  "bucket env center key =
     (case map_of (reformatters env) center of
        None \<Rightarrow> Inl KeyError
      | Some reformatter \<Rightarrow>
          (case map_of reformatter key of
             None \<Rightarrow> Inl KeyError
           | Some (PStr b) \<Rightarrow> Inr (''s3://'' @ b)
           | Some other \<Rightarrow> Inl TypeError))"

fun all_or_raise :: "(exn + 'a) list \<Rightarrow> exn + 'a list" where
  "all_or_raise [] = Inr []"
| "all_or_raise (Inl e # rs) = Inl e"
| "all_or_raise (Inr x # rs) = (case all_or_raise rs of Inl e \<Rightarrow> Inl e | Inr xs \<Rightarrow> Inr (x # xs))"

definition center_missions :: "env \<Rightarrow> string \<Rightarrow> string \<Rightarrow> exn + string list" where
  "center_missions env center mission =
     (case all_or_raise
             (map (\<lambda>sat. case map_of sat center of None \<Rightarrow> Inl KeyError | Some m \<Rightarrow> Inr m)
                  (get_receiver_satellites env mission)) of
        Inl e \<Rightarrow> Inl e
      | Inr ms \<Rightarrow> Inr (sort (remdups ms)))"

definition capture_rest :: string where
  "capture_rest = [CHR ''/'', CHR ''('', CHR ''.'', CHR ''*'', CHR '')'', CHR ''$'']"

subsection \<open>The UCAR branch\<close>

text \<open>
  The selection of the subdirectories of a day directory for a file type: the three
  \<^verbatim>\<open>if\<close>/\<^verbatim>\<open>elif\<close> loops that fill \<^verbatim>\<open>type_subdirs\<close>. For \<^verbatim>\<open>level2b\<close> a
  \<^verbatim>\<open>wetPrf\<close> entry is taken only while \<^verbatim>\<open>type_subdirs\<close> is still empty.
\<close>

definition level2b_step :: "string list \<Rightarrow> string \<Rightarrow> string list" where
  "level2b_step type_subdirs subdir =
     (if starts_with ''wetPf2'' (path_tail subdir) then type_subdirs @ [subdir]
      else if starts_with ''wetPrf'' (path_tail subdir) \<and> length type_subdirs = 0
           then type_subdirs @ [subdir]
      else type_subdirs)"

definition select_type_subdirs :: "string \<Rightarrow> string list \<Rightarrow> string list" where
  "select_type_subdirs file_type sds =
     (if file_type = ''level1b'' then
        filter (\<lambda>subdir. starts_with ''atmPhs'' (path_tail subdir) \<or>
                         starts_with ''conPhs'' (path_tail subdir)) sds
      else if file_type = ''level2a'' then
        filter (\<lambda>subdir. starts_with ''atmPrf'' (path_tail subdir)) sds
      else if file_type = ''level2b'' then foldl level2b_step [] sds
      else [])"

definition ucar_job :: "string \<Rightarrow> string \<Rightarrow> string \<Rightarrow> string \<Rightarrow> string \<Rightarrow> nat \<Rightarrow> pyval" where
  "ucar_job file_type center mission date path n =
     PDict [(''file_type'', PStr file_type), (''processing_center'', PStr center),
            (''mission'', PStr mission), (''date'', PStr date),
            (''input_relative_dir'', PStr path), (''nfiles'', PInt (int n))]"

text \<open>
  The day directory of a processing version: below the first entry of the version's
  listing when the name of that entry does not contain \<^verbatim>\<open>level\<close>, directly below the
  version otherwise.
\<close>

definition ucar_daydir :: "string \<Rightarrow> string \<Rightarrow> string \<Rightarrow> int \<Rightarrow> int \<Rightarrow> string" where
  "ucar_daydir processingVersion tail lvl year doy =
     (if \<not> contains ''level'' tail
      then join_all processingVersion
             [tail, lvl, format_d CHR '' '' 4 year, format_d CHR ''0'' 3 doy]
      else join_all processingVersion
             [lvl, format_d CHR '' '' 4 year, format_d CHR ''0'' 3 doy])"

text \<open>The body of the loop over the processing versions of one UCAR mission.\<close>

definition ucar_version ::
  "env \<Rightarrow> int \<Rightarrow> int \<Rightarrow> string \<Rightarrow> string \<Rightarrow> string \<Rightarrow> string \<Rightarrow> dstate \<Rightarrow> ctl \<times> dstate" where
  "ucar_version env year doy date mission file_type processingVersion st0 =
     (case do_ls env processingVersion st0 of
        (Inl e, st) \<Rightarrow> (Throw e, st)
      | (Inr subdir_list, st) \<Rightarrow>
          (case subdir_list of
             [] \<Rightarrow> (Throw IndexError, st)
           | first # others \<Rightarrow>
               (case level st of
                  None \<Rightarrow> (Throw UnboundLocalError, st)
                | Some lvl \<Rightarrow>
                    let tail = path_tail first;
                        daydir = ucar_daydir processingVersion tail lvl year doy
                    in
                    (case do_ls env daydir st of
                       (Inl e, st) \<Rightarrow>
                         if \<not> contains ''level'' tail then (Throw e, st)
                         else (Next, log_msg (LogInfo (''*** s3://'' @ daydir @ '' does not exist.'')) st)
                     | (Inr sds, st) \<Rightarrow>
                         let st = st\<lparr> subdirs := Some sds \<rparr>;
                             type_subdirs = select_type_subdirs file_type sds
                         in
                         if length type_subdirs \<noteq> 1 then
                           (Next, log_msg (LogInfo ''type_subdirs !=1'') st)
                         else
                           (case UCARprefix st of
                              None \<Rightarrow> (Throw TypeError, st)
                            | Some pfx \<Rightarrow>
                                (case re_search_group env (drop 5 pfx @ capture_rest)
                                        (hd type_subdirs) of
                                   None \<Rightarrow> (Throw AttributeError, st)
                                 | Some path \<Rightarrow>
                                     (case do_ls env (hd type_subdirs) st of
                                        (Inl e, st) \<Rightarrow>
                                          (Next, log_msg (LogInfo (''*** s3://'' @ hd type_subdirs @
                                                                   '' does not exist.'')) st)
                                      | (Inr filepaths, st) \<Rightarrow>
                                          (Break,
                                           append_job
                                             (ucar_job file_type ''ucar'' mission date path
                                                (length filepaths)) st))))))))"

definition ucar_mission ::
  "env \<Rightarrow> int \<Rightarrow> int \<Rightarrow> string \<Rightarrow> string \<Rightarrow> string \<Rightarrow> string \<Rightarrow> dstate \<Rightarrow> ctl \<times> dstate" where
  "ucar_mission env year doy date mission file_type UCARmission st0 =
     (case UCARprefix st0 of
        None \<Rightarrow> (Throw TypeError, st0)
      | Some pfx \<Rightarrow>
          (case do_ls env (path_join pfx UCARmission) st0 of
             (Inl e, st) \<Rightarrow>
               (Next, log_msg (LogError (''*** '' @ path_join pfx UCARmission @
                                         '' does not exist.'')) st)
           | (Inr processingVersions, st) \<Rightarrow>
               for_each (ucar_version env year doy date mission file_type) processingVersions st))"

definition ucar_file_type ::
  "env \<Rightarrow> int \<Rightarrow> int \<Rightarrow> string \<Rightarrow> string \<Rightarrow> string \<Rightarrow> dstate \<Rightarrow> ctl \<times> dstate" where
  "ucar_file_type env year doy date mission file_type st0 =
     (let st = (if file_type = ''level1b'' then st0\<lparr> level := Some ''level1b'' \<rparr>
                else if file_type \<in> set [''level2a'', ''level2b'']
                     then st0\<lparr> level := Some ''level2'' \<rparr>
                else st0)
      in case center_missions env ''ucar'' mission of
           Inl e \<Rightarrow> (Throw e, st)
         | Inr UCARmissions \<Rightarrow>
             for_each (ucar_mission env year doy date mission file_type) UCARmissions st)"

definition ucar_branch ::
  "env \<Rightarrow> bool \<Rightarrow> int \<Rightarrow> int \<Rightarrow> string \<Rightarrow> string list \<Rightarrow> string \<Rightarrow> dstate \<Rightarrow> ctl \<times> dstate" where
  "ucar_branch env liveupdate year doy date file_types mission st0 =
     (case (if UCARprefix st0 = None then
              (if liveupdate
               then map_sum id (\<lambda>b. st0\<lparr> UCARprefix := Some (b @ ''/untarred'') \<rparr>)
                      (bucket env ''ucar'' ''liveupdateBucket'')
               else map_sum id (\<lambda>b. st0\<lparr> UCARprefix := Some b \<rparr>)
                      (bucket env ''ucar'' ''archiveBucket''))
            else Inr st0) of
        Inl e \<Rightarrow> (Throw e, st0)
      | Inr st \<Rightarrow> for_each (ucar_file_type env year doy date mission) file_types st)"

subsection \<open>The ROM SAF branch\<close>

definition dated_job :: "string \<Rightarrow> string \<Rightarrow> string \<Rightarrow> string \<Rightarrow> string \<Rightarrow> nat \<Rightarrow> pyval" where
  "dated_job date mission center file_type path n =
     PDict [(''date'', PStr date), (''mission'', PStr mission),
            (''processing_center'', PStr center), (''file_type'', PStr file_type),
            (''input_relative_dir'', PStr path), (''nfiles'', PInt (int n))]"

text \<open>
  The job of one listed directory: appended when it holds at least one NetCDF file,
  logged as empty otherwise.
\<close>

definition romsaf_job ::
  "string \<Rightarrow> string \<Rightarrow> string \<Rightarrow> string \<Rightarrow> string \<Rightarrow> string list \<Rightarrow> dstate \<Rightarrow> dstate" where
  "romsaf_job date mission file_type path fullpath paths st =
     (let filepaths = filter re_search_nc paths;
          nfilepaths = length filepaths
      in if nfilepaths > 0
         then append_job (dated_job date mission ''romsaf'' file_type path nfilepaths) st
         else log_msg (LogInfo (''No files found in s3://'' @ fullpath)) st)"

definition romsaf_file_type ::
  "env \<Rightarrow> bool \<Rightarrow> int \<Rightarrow> int \<Rightarrow> int \<Rightarrow> string \<Rightarrow> string \<Rightarrow> dstate \<Rightarrow> ctl \<times> dstate" where
  "romsaf_file_type env nonnominal year month day mission file_type st0 =
     (if file_type = ''level2a'' \<or> file_type = ''level2b'' then
        let search_string =
              (if file_type = ''level2a'' then ''atm_'' else ''wet_'') @
              format_d CHR '' '' 4 year @ format_d CHR ''0'' 2 month @ format_d CHR ''0'' 2 day
        in
        (case subdirs st0 of
           None \<Rightarrow> (Throw UnboundLocalError, st0)
         | Some sds \<Rightarrow>
             let type_subdirs =
                   filter (\<lambda>subdir. starts_with search_string (path_tail subdir)) sds
             in
             if length type_subdirs \<noteq> 1 then
               (Next, log_msg (LogInfo ''type_subdirs != 1'') st0)
             else
               let fullpath =
                     path_join (hd type_subdirs)
                       (format_d CHR '' '' 4 year @ ''-'' @ format_d CHR ''0'' 2 month @ ''-'' @
                        format_d CHR ''0'' 2 day)
               in
               (case ROMSAFprefix st0 of
                  None \<Rightarrow> (Throw TypeError, st0)
                | Some pfx \<Rightarrow>
                    (case re_search_group env (drop 5 pfx @ capture_rest) fullpath of
                       None \<Rightarrow> (Throw AttributeError, st0)
                     | Some path \<Rightarrow>
                         (case do_ls env fullpath st0 of
                            (Inl e, st) \<Rightarrow>
                              (Next, log_msg (LogInfo (''*** '' @ fullpath @ '' does not exist.'')) st)
                          | (Inr paths, st) \<Rightarrow>
                              let st = romsaf_job (iso_date year month day) mission file_type
                                         path fullpath paths st
                              in
                              if nonnominal then
                                let fullpath = path_join fullpath ''non-nominal'' in
                                (case re_search_group env (pfx @ capture_rest) fullpath of
                                   None \<Rightarrow> (Throw AttributeError, st)
                                 | Some path \<Rightarrow>
                                     (case do_ls env fullpath st of
                                        (Inl e, st) \<Rightarrow>
                                          (Next,
                                           log_msg (LogException e)
                                             (log_msg (LogError (fullpath @ '' does not exist.'')) st))
                                      | (Inr paths, st) \<Rightarrow>
                                          (Next,
                                           romsaf_job (iso_date year month day) mission file_type
                                             path fullpath paths st)))
                              else (Next, st)))))
      else (Next, st0))"

definition romsaf_mission ::
  "env \<Rightarrow> bool \<Rightarrow> bool \<Rightarrow> int \<Rightarrow> int \<Rightarrow> int \<Rightarrow> string list \<Rightarrow> string \<Rightarrow> string \<Rightarrow> dstate
     \<Rightarrow> ctl \<times> dstate" where
  "romsaf_mission env liveupdate nonnominal year month day file_types mission ROMSAFmission st0 =
     (case ROMSAFprefix st0 of
        None \<Rightarrow> (Throw TypeError, st0)
      | Some pfx \<Rightarrow>
          let yeardir =
                (if liveupdate
                 then join_all pfx [ROMSAFmission, format_d CHR '' '' 4 year]
                 else join_all pfx [''romsaf'', ''download'', ROMSAFmission,
                                    format_d CHR '' '' 4 year]);
              st = (case do_ls env yeardir st0 of
                      (Inl e, st) \<Rightarrow> log_msg (LogInfo (''*** '' @ yeardir @ '' does not exist.'')) st
                    | (Inr sds, st) \<Rightarrow> st\<lparr> subdirs := Some sds \<rparr>)
          in for_each (romsaf_file_type env nonnominal year month day mission) file_types st)"

definition romsaf_branch ::
  "env \<Rightarrow> bool \<Rightarrow> bool \<Rightarrow> int \<Rightarrow> int \<Rightarrow> int \<Rightarrow> string list \<Rightarrow> string \<Rightarrow> dstate \<Rightarrow> ctl \<times> dstate" where
  "romsaf_branch env liveupdate nonnominal year month day file_types mission st0 =
     (case (if ROMSAFprefix st0 = None then
              (if liveupdate
               then map_sum id (\<lambda>b. st0\<lparr> ROMSAFprefix := Some (b @ ''/untarred'') \<rparr>)
                      (bucket env ''romsaf'' ''liveupdateBucket'')
               else map_sum id (\<lambda>b. st0\<lparr> ROMSAFprefix := Some b \<rparr>)
                      (bucket env ''romsaf'' ''archiveBucket''))
            else Inr st0) of
        Inl e \<Rightarrow> (Throw e, st0)
      | Inr st \<Rightarrow>
          (case center_missions env ''romsaf'' mission of
             Inl e \<Rightarrow> (Throw e, st)
           | Inr ROMSAFmissions \<Rightarrow>
               for_each (romsaf_mission env liveupdate nonnominal year month day file_types mission)
                 ROMSAFmissions st))"

subsection \<open>The JPL branch\<close>

text \<open>
  The body of the loop over the file types. The path of the day is exact; it is listed
  through \<^verbatim>\<open>s3.ls\<close> or on the local file system, by the form of the prefix. A file
  type that the branch does not know is logged, and \<^verbatim>\<open>jpl_file_type\<close> keeps the
  value it had.
\<close>

definition jpl_file_type_body ::
  "env \<Rightarrow> int \<Rightarrow> int \<Rightarrow> int \<Rightarrow> string \<Rightarrow> string \<Rightarrow> dstate \<Rightarrow> ctl \<times> dstate" where
  "jpl_file_type_body env year month day mission file_type st0 =
     (let st = (if file_type = ''level1b'' then st0\<lparr> jpl_file_type := Some ''calibratedPhase'' \<rparr>
                else if file_type = ''level2a''
                     then st0\<lparr> jpl_file_type := Some ''refractivityRetrieval'' \<rparr>
                else if file_type = ''level2b''
                     then st0\<lparr> jpl_file_type := Some ''atmosphericRetrieval'' \<rparr>
                else log_msg (LogError (''File type \"'' @ file_type @
                       ''\" for processing center \"jpl\" is unrecognized.'')) st0)
      in
      case JPLprefix st of
        None \<Rightarrow> (Throw TypeError, st)
      | Some pfx \<Rightarrow>
          (case jpl_file_type st of
             None \<Rightarrow> (Throw UnboundLocalError, st)
           | Some jft \<Rightarrow>
               let path = join_with ''/''
                            [pfx, mission, jft,
                             format_d CHR '' '' 4 year @ ''/'' @ format_d CHR ''0'' 2 month @ ''/'' @
                             format_d CHR ''0'' 2 day];
                   listed =
                     (if take 5 pfx = ''s3://'' then
                        (case do_ls env path st of
                           (Inl e, st) \<Rightarrow> (None, st)
                         | (Inr files, st) \<Rightarrow> (Some files, st))
                      else if \<not> isdir env path then (None, st\<lparr> scanned := scanned st @ [path] \<rparr>)
                      else (Some (listdir env path), st\<lparr> scanned := scanned st @ [path, path] \<rparr>))
               in
               (case listed of
                  (None, st) \<Rightarrow> (Next, log_msg (LogInfo (''*** '' @ path @ '' does not exist.'')) st)
                | (Some files, st) \<Rightarrow>
                    let files = filter re_search_nc files;
                        n = length files
                    in
                    if n > 0 then
                      let path_split = (if take 5 pfx = ''s3://''
                                        then split_on CHR ''/'' (drop 5 path)
                                        else split_on CHR ''/'' path);
                          prefix_split = (if take 5 pfx = ''s3://''
                                          then split_on CHR ''/'' (drop 5 pfx)
                                          else split_on CHR ''/'' pfx);
                          input_relative_dir =
                            join_with ''/'' (drop (length prefix_split) path_split)
                      in (Next,
                          append_job (dated_job (iso_date year month day) mission ''jpl'' jft
                                        input_relative_dir n) st)
                    else (Next, log_msg (LogInfo (''*** No files found in '' @ path)) st))))"

definition jpl_branch ::
  "env \<Rightarrow> bool \<Rightarrow> int \<Rightarrow> int \<Rightarrow> int \<Rightarrow> string list \<Rightarrow> string \<Rightarrow> dstate \<Rightarrow> ctl \<times> dstate" where
  "jpl_branch env liveupdate year month day file_types mission st0 =
     (if JPLprefix st0 = None \<and> liveupdate then
        (Break, log_msg (LogError ''no liveupdate option for jpl yet'') st0)
      else
        (case (if JPLprefix st0 = None
               then map_sum id (\<lambda>b. st0\<lparr> JPLprefix := Some b \<rparr>) (bucket env ''jpl'' ''archiveBucket'')
               else Inr st0) of
           Inl e \<Rightarrow> (Throw e, st0)
         | Inr st \<Rightarrow> for_each (jpl_file_type_body env year month day mission) file_types st))"

subsection \<open>The EUMETSAT branch\<close>

text \<open>
  The branch knows only \<^verbatim>\<open>liveupdate\<close> and \<^verbatim>\<open>level1b\<close>. A day directory with a
  single subdirectory gives a job, whatever the name of the subdirectory, and the loop
  over the processing versions goes on after a job.
\<close>

definition eumetsat_version ::
  "env \<Rightarrow> int \<Rightarrow> int \<Rightarrow> string \<Rightarrow> string \<Rightarrow> string \<Rightarrow> string \<Rightarrow> dstate \<Rightarrow> ctl \<times> dstate" where
  "eumetsat_version env year doy date mission file_type processingVersion st0 =
     (case level st0 of
        None \<Rightarrow> (Throw UnboundLocalError, st0)
      | Some lvl \<Rightarrow>
          let daydir = join_all processingVersion
                         [lvl, format_d CHR '' '' 4 year, format_d CHR ''0'' 3 doy]
          in
          (case do_ls env daydir st0 of
             (Inl e, st) \<Rightarrow>
               (Next, log_msg (LogInfo (''*** s3://'' @ daydir @ '' does not exist.'')) st)
           | (Inr sds, st) \<Rightarrow>
               let st = st\<lparr> subdirs := Some sds \<rparr>;
                   type_subdirs = sds
               in
               if length type_subdirs \<noteq> 1 then
                 (Next, log_msg (LogInfo ''type_subdirs !=1'') st)
               else
                 (case EUMETSATprefix st of
                    None \<Rightarrow> (Throw TypeError, st)
                  | Some pfx \<Rightarrow>
                      (case re_search_group env (drop 5 pfx @ capture_rest) (hd type_subdirs) of
                         None \<Rightarrow> (Throw AttributeError, st)
                       | Some path \<Rightarrow>
                           (case do_ls env (hd type_subdirs) st of
                              (Inl e, st) \<Rightarrow>
                                (Next, log_msg (LogInfo (''*** s3://'' @ hd type_subdirs @
                                                         '' does not exist.'')) st)
                            | (Inr filepaths, st) \<Rightarrow>
                                (Next,
                                 append_job
                                   (ucar_job file_type ''eumetsat'' mission date path
                                      (length filepaths)) st))))))"

definition eumetsat_mission ::
  "env \<Rightarrow> int \<Rightarrow> int \<Rightarrow> string \<Rightarrow> string \<Rightarrow> string \<Rightarrow> string \<Rightarrow> dstate \<Rightarrow> ctl \<times> dstate" where
  "eumetsat_mission env year doy date mission file_type EUMETSATmission st0 =
     (case EUMETSATprefix st0 of
        None \<Rightarrow> (Throw TypeError, st0)
      | Some pfx \<Rightarrow>
          (case do_ls env (path_join pfx EUMETSATmission) st0 of
             (Inl e, st) \<Rightarrow>
               (Next, log_msg (LogError (''*** '' @ path_join pfx EUMETSATmission @
                                         '' does not exist.'')) st)
           | (Inr processingVersions, st) \<Rightarrow>
               for_each (eumetsat_version env year doy date mission file_type)
                 processingVersions st))"

definition eumetsat_file_type ::
  "env \<Rightarrow> int \<Rightarrow> int \<Rightarrow> string \<Rightarrow> string \<Rightarrow> string \<Rightarrow> dstate \<Rightarrow> ctl \<times> dstate" where
  "eumetsat_file_type env year doy date mission file_type st0 =
     (if file_type = ''level1b'' then
        let st = st0\<lparr> level := Some ''level1b'' \<rparr> in
        (case center_missions env ''eumetsat'' mission of
           Inl e \<Rightarrow> (Throw e, st)
         | Inr EUMETSATmissions \<Rightarrow>
             for_each (eumetsat_mission env year doy date mission file_type) EUMETSATmissions st)
      else (Break, log_msg (LogError ''only level1b exists for eumetstat'') st0))"

definition eumetsat_branch ::
  "env \<Rightarrow> bool \<Rightarrow> int \<Rightarrow> int \<Rightarrow> string \<Rightarrow> string list \<Rightarrow> string \<Rightarrow> dstate \<Rightarrow> ctl \<times> dstate" where
  "eumetsat_branch env liveupdate year doy date file_types mission st0 =
     (if EUMETSATprefix st0 = None \<and> \<not> liveupdate then
        (Break, log_msg (LogError ''only liveupdate option for eumetstat'') st0)
      else
        (case (if EUMETSATprefix st0 = None
               then map_sum id (\<lambda>b. st0\<lparr> EUMETSATprefix := Some (b @ ''/untarred'') \<rparr>)
                      (bucket env ''eumetsat'' ''liveupdateBucket'')
               else Inr st0) of
           Inl e \<Rightarrow> (Throw e, st0)
         | Inr st \<Rightarrow> for_each (eumetsat_file_type env year doy date mission) file_types st))"

subsection \<open>The sweep over dates and missions\<close>

text \<open>The body of the loop over the missions, for the day with ordinal \<open>date\<close>.\<close>

definition mission_body ::
  "env \<Rightarrow> bool \<Rightarrow> bool \<Rightarrow> string list \<Rightarrow> string list \<Rightarrow> int \<Rightarrow> string \<Rightarrow> dstate
     \<Rightarrow> ctl \<times> dstate" where
  "mission_body env liveupdate nonnominal processing_centers file_types date mission st0 =
     (case ord2ymd date of (year, month, day) \<Rightarrow>
      let doy = date - days_before_year year;
          valid = (mission \<in> set (valid_missions_aws env))
      in
      and_then
        (and_then
          (and_then
            (if ''ucar'' \<in> set processing_centers \<and> valid
             then ucar_branch env liveupdate year doy (iso_date year month day) file_types
                    mission st0
             else (Next, st0))
            (\<lambda>st. if ''romsaf'' \<in> set processing_centers \<and> valid
                  then romsaf_branch env liveupdate nonnominal year month day file_types mission st
                  else (Next, st)))
          (\<lambda>st. if ''jpl'' \<in> set processing_centers \<and> valid
                then jpl_branch env liveupdate year month day file_types mission st
                else (Next, st)))
        (\<lambda>st. if ''eumetsat'' \<in> set processing_centers \<and> valid
              then eumetsat_branch env liveupdate year doy (iso_date year month day) file_types
                     mission st
              else (Next, st)))"

text \<open>
  The loop \<^verbatim>\<open>while date <= daterange[1]\<close>. The step \<^verbatim>\<open>date + timedelta(days=1)\<close>
  overflows after the last day a \<^verbatim>\<open>datetime\<close> can hold.
\<close>

function date_loop ::
  "env \<Rightarrow> bool \<Rightarrow> bool \<Rightarrow> string list \<Rightarrow> string list \<Rightarrow> string list \<Rightarrow> int \<Rightarrow> int \<Rightarrow> dstate
     \<Rightarrow> ctl \<times> dstate" where
  "date_loop env liveupdate nonnominal missions processing_centers file_types date lastday st =
     (if date \<le> lastday then
        (case for_each (mission_body env liveupdate nonnominal processing_centers file_types date)
                missions st of
           (Throw e, st') \<Rightarrow> (Throw e, st')
         | (c, st') \<Rightarrow>
             if date \<ge> max_ordinal then (Throw OverflowError, st')
             else date_loop env liveupdate nonnominal missions processing_centers file_types
                    (date + 1) lastday st')
      else (Next, st))"
  by pat_completeness auto
termination
  by (relation "measure (\<lambda>(env, liveupdate, nonnominal, missions, processing_centers, file_types,
                           date, lastday, st). nat (lastday + 1 - date))") auto

declare date_loop.simps [simp del]

subsection \<open>definejobs\<close>

text \<open>
  The arguments are the two days of the range (as ordinals), the three lists of names,
  the version (not used by the code), the four optional prefixes, and the flags. The
  result is what the call returns or raises, with the log and the list of the paths
  that were listed. The three checks come first and return the integer 1; then the
  listing client is built from the session, which reads \<^verbatim>\<open>session.region_name\<close>.
\<close>

definition known_file_types :: "env \<Rightarrow> string set" where
  "known_file_types env = set (concat (map (\<lambda>(center, reformatter). map fst reformatter)
                                           (reformatters env)))"

definition definejobs ::
  "env \<Rightarrow> int \<times> int \<Rightarrow> string list \<Rightarrow> string list \<Rightarrow> string list \<Rightarrow> pyval \<Rightarrow>
   string option \<Rightarrow> string option \<Rightarrow> string option \<Rightarrow> string option \<Rightarrow>
   bool \<Rightarrow> session option \<Rightarrow> bool \<Rightarrow> (exn + pyval) \<times> dmsg list \<times> string list" where
  "definejobs env daterange missions processing_centers file_types version
     UCARarg ROMSAFarg JPLarg EUMETSATarg nonnominal sess liveupdate =
     (case find (\<lambda>processing_center. processing_center \<notin> set (map fst (reformatters env)))
             processing_centers of
        Some processing_center \<Rightarrow>
          (Inr (PInt 1),
           [LogError (''Processing center \"'' @ processing_center @
                      ''\" is not a valid processing center'')], [])
      | None \<Rightarrow>
     (case find (\<lambda>file_type. file_type \<notin> known_file_types env) file_types of
        Some file_type \<Rightarrow>
          (Inr (PInt 1),
           [LogError (''File type \"'' @ file_type @ ''\" is not a valid file type'')], [])
      | None \<Rightarrow>
     (case find (\<lambda>mission. mission \<notin> set (valid_missions_aws env)) missions of
        Some mission \<Rightarrow>
          (Inr (PInt 1),
           [LogError (''Mission \"'' @ mission @ ''\" is not a valid mission'')], [])
      | None \<Rightarrow>
     (case sess of
        None \<Rightarrow> (Inl AttributeError, [], [])
      | Some s \<Rightarrow>
          (case date_loop env liveupdate nonnominal missions processing_centers file_types
                  (fst daterange) (snd daterange)
                  \<lparr> UCARprefix = UCARarg, ROMSAFprefix = ROMSAFarg, JPLprefix = JPLarg,
                    EUMETSATprefix = EUMETSATarg, level = None, jpl_file_type = None,
                    subdirs = None, joblist = [], dlog = [], scanned = [] \<rparr> of
             (Throw e, st) \<Rightarrow> (Inl e, dlog st, scanned st)
           | (c, st) \<Rightarrow>
               let opt = (\<lambda>p. case p of None \<Rightarrow> PNone | Some x \<Rightarrow> PStr x);
                   pfxs =
                     (if ''ucar'' \<in> set processing_centers
                      then [(''ucar'', opt (UCARprefix st))] else []) @
                     (if ''romsaf'' \<in> set processing_centers
                      then [(''romsaf'', opt (ROMSAFprefix st))] else []) @
                     (if ''jpl'' \<in> set processing_centers
                      then [(''jpl'', opt (JPLprefix st))] else []) @
                     (if ''eumetsat'' \<in> set processing_centers
                      then [(''eumetsat'', opt (EUMETSATprefix st))] else []);
                   ret = PDict [(''prefixes'', PDict pfxs), (''jobs'', PList (joblist st))]
               in (Inr ret,
                   dlog st @ [LogInfoSummary (PDict pfxs) (length (joblist st))],
                   scanned st))))))"

section \<open>createjobdefinitionsjson and the JSON document\<close>

text \<open>
  A JSON document, as a tree. \<^verbatim>\<open>json.dump\<close> maps \<^verbatim>\<open>None\<close>, booleans, integers,
  strings, lists and dictionaries with string keys to \<^verbatim>\<open>null\<close>, booleans, numbers,
  strings, arrays and objects (keeping the order of the keys) and raises
  \<^verbatim>\<open>TypeError\<close> for an object of any other type; \<^verbatim>\<open>json.load\<close> maps a document
  back to Python values. The text of the document (indentation, escapes) is the business
  of Python's \<^verbatim>\<open>json\<close> module and is not modelled; numbers are integers, the only
  numbers that \<^verbatim>\<open>definejobs\<close> produces.
\<close>

datatype json =
    JNull
  | JBool bool
  | JNumber int
  | JString string
  | JArray "json list"
  | JObject "(string \<times> json) list"

fun json_dump :: "pyval \<Rightarrow> exn + json" where
  "json_dump PNone = Inr JNull"
| "json_dump (PBool b) = Inr (JBool b)"
| "json_dump (PInt i) = Inr (JNumber i)"
| "json_dump (PStr s) = Inr (JString s)"
| "json_dump (PList xs) = map_sum id JArray (all_or_raise (map json_dump xs))"
| "json_dump (PDict kvs) =
     map_sum id JObject
       (all_or_raise (map (\<lambda>kv. map_sum id (\<lambda>d. (fst kv, d)) (json_dump (snd kv))) kvs))"
| "json_dump (PObj name) = Inl TypeError"

fun json_load :: "json \<Rightarrow> pyval" where
  "json_load JNull = PNone"
| "json_load (JBool b) = PBool b"
| "json_load (JNumber i) = PInt i"
| "json_load (JString s) = PStr s"
| "json_load (JArray xs) = PList (map json_load xs)"
| "json_load (JObject kvs) = PDict (map (\<lambda>kv. (fst kv, json_load (snd kv))) kvs)"

text \<open>
  \<^verbatim>\<open>createjobdefinitionsjson\<close> calls \<^verbatim>\<open>definejobs\<close> (without the flags
  \<^verbatim>\<open>nonnominal\<close> and \<^verbatim>\<open>liveupdate\<close>, which take their default \<^verbatim>\<open>False\<close>) and dumps
  what it returns; the result is the document written to the file, or the exception.
\<close>

definition createjobdefinitionsjson ::
  "env \<Rightarrow> int \<times> int \<Rightarrow> string list \<Rightarrow> string list \<Rightarrow> string list \<Rightarrow> pyval \<Rightarrow>
   string option \<Rightarrow> string option \<Rightarrow> string option \<Rightarrow> string option \<Rightarrow>
   session option \<Rightarrow> exn + json" where
  "createjobdefinitionsjson env daterange missions processing_centers file_types version
     UCARarg ROMSAFarg JPLarg EUMETSATarg sess =
     (case fst (definejobs env daterange missions processing_centers file_types version
                  UCARarg ROMSAFarg JPLarg EUMETSATarg False sess False) of
        Inl e \<Rightarrow> Inl e
      | Inr job_definitions \<Rightarrow> json_dump job_definitions)"


section \<open>The file types that \<^verbatim>\<open>main\<close> names\<close>

text \<open>
  \<^verbatim>\<open>main\<close> computes the valid file types for the help text of its \<^verbatim>\<open>file_type\<close>
  argument: the keys of the reformatter dictionaries that match \<^verbatim>\<open>^level\<close>, without
  duplicates, sorted. The other keys of a reformatter dictionary (the buckets) are not
  file types. The argument itself is handed to \<^verbatim>\<open>definejobs\<close> as it was typed.
\<close>

definition sorted_valid_filetypes :: "env \<Rightarrow> string list" where
  "sorted_valid_filetypes env =
     (let all_filetypes =
            concat (map (\<lambda>(key, val). filter (starts_with ''level'') (map fst val))
                        (reformatters env))
      in sort (remdups all_filetypes))"
section \<open>Sample inputs\<close>

text \<open>
  Concrete inputs on which the theorems below are instantiated: a session, the file name
  template that \<^verbatim>\<open>main\<close> builds, job definitions over one UCAR prefix, and a
  listing in which the first directory holds one NetCDF file and the second none.
\<close>

definition sample_session :: session where
  "sample_session = \<lparr> profile_name = ''default'', region_name = ''us-east-1'' \<rparr>"

definition sample_template :: "int \<Rightarrow> string" where
  "sample_template i =
     ''s3://definitions/batchprocess-jobs/ucar-cosmic1-level2a.'' @ format_d CHR ''0'' 6 i @ ''.json''"

definition sample_job :: "string \<Rightarrow> pyval" where
  "sample_job dir =
     PDict [(''file_type'', PStr ''level2a''), (''processing_center'', PStr ''ucar''),
            (''mission'', PStr ''cosmic1''), (''date'', PStr ''2009-01-01''),
            (''input_relative_dir'', PStr dir), (''nfiles'', PInt 1)]"

definition sample_definitions :: "string list \<Rightarrow> pyval" where
  "sample_definitions dirs =
     PDict [(''prefixes'', PDict [(''ucar'', PStr ''s3://ucar-archive'')]),
            (''jobs'', PList (map sample_job dirs))]"

definition sample_ls :: listing where
  "sample_ls path =
     (if path = ''s3://ucar-archive/cosmic1/atmPrf/2009.001''
        then Inr [''ucar-archive/cosmic1/atmPrf/2009.001/atmPrf_C001.2009.001.00.05.G13_nc'']
      else if path = ''s3://ucar-archive/cosmic1/atmPrf/2009.002''
        then Inr [''ucar-archive/cosmic1/atmPrf/2009.002/MANIFEST.txt'']
      else Inl FileNotFoundError)"

definition sample_stream :: "nat \<Rightarrow> tuple4 list" where
  "sample_stream n =
     map (\<lambda>i. (PStr ''level2a'', PStr ''ucar'', ''s3://ucar-archive'',
                ''cosmic1/atmPrf/2009.001/file'' @ decimal i @ ''_nc'')) [1..<Suc n]"

definition empty_world :: world where
  "empty_world = \<lparr> written = [], logged = [] \<rparr>"

text \<open>
  The words of the claims about streams: all tuples of a stream share one processing
  center and one input root path; the relative path of a tuple.
\<close>

definition homogeneous :: "string \<Rightarrow> pyval \<Rightarrow> tuple4 list \<Rightarrow> bool" where
  "homogeneous r c ts = (\<forall>t\<in>set ts. fst (snd t) = c \<and> fst (snd (snd t)) = r)"

definition relpath :: "tuple4 \<Rightarrow> string" where
  "relpath t = snd (snd (snd t))"

text \<open>
  A regular expression engine for patterns \<open>prefix @ capture_rest\<close> whose prefix has
  no special character: the text after the first occurrence of the prefix and the slash.
\<close>

fun after_first :: "string \<Rightarrow> string \<Rightarrow> string option" where
  "after_first pat [] = (if pat = [] then Some [] else None)"
| "after_first pat (c # cs) =
     (if starts_with pat (c # cs) then Some (drop (length pat) (c # cs))
      else after_first pat cs)"

definition literal_group :: "string \<Rightarrow> string \<Rightarrow> string option" where
  "literal_group pattern s = after_first (take (length pattern - 5) pattern) s"

text \<open>
  A UCAR archive with one mission and one processing version. The day directory of
  2009-01-01 (ordinal 733408) lists the subdirectories \<^verbatim>\<open>atmPrf\<close> and \<^verbatim>\<open>wetPrf\<close>;
  the listing of \<^verbatim>\<open>atmPrf\<close> is empty and \<^verbatim>\<open>wetPrf\<close> holds one file. The day
  directory of 2009-01-02 lists \<^verbatim>\<open>wetPrf\<close> before \<^verbatim>\<open>wetPf2\<close>.
\<close>

definition sample_env :: env where
  "sample_env =
     \<lparr> s3_ls = (\<lambda>path.
         if path = ''s3://ucar-earth-ro-archive/cosmic1''
           then Inr [''ucar-earth-ro-archive/cosmic1/repro2013'']
         else if path = ''ucar-earth-ro-archive/cosmic1/repro2013''
           then Inr [''ucar-earth-ro-archive/cosmic1/repro2013/level1b'',
                     ''ucar-earth-ro-archive/cosmic1/repro2013/level2'']
         else if path = ''ucar-earth-ro-archive/cosmic1/repro2013/level2/2009/001''
           then Inr [''ucar-earth-ro-archive/cosmic1/repro2013/level2/2009/001/atmPrf'',
                     ''ucar-earth-ro-archive/cosmic1/repro2013/level2/2009/001/wetPrf'']
         else if path = ''ucar-earth-ro-archive/cosmic1/repro2013/level2/2009/001/atmPrf''
           then Inr []
         else if path = ''ucar-earth-ro-archive/cosmic1/repro2013/level2/2009/001/wetPrf''
           then Inr [''ucar-earth-ro-archive/cosmic1/repro2013/level2/2009/001/wetPrf/wetPrf_C001.2009.001.00.05.G13_2013.3520_nc'']
         else if path = ''ucar-earth-ro-archive/cosmic1/repro2013/level2/2009/002''
           then Inr [''ucar-earth-ro-archive/cosmic1/repro2013/level2/2009/002/wetPrf'',
                     ''ucar-earth-ro-archive/cosmic1/repro2013/level2/2009/002/wetPf2'']
         else if path = ''ucar-earth-ro-archive/cosmic1/repro2013/level2/2009/002/wetPf2''
           then Inr [''ucar-earth-ro-archive/cosmic1/repro2013/level2/2009/002/wetPf2/wetPf2_C001.2009.002.00.05.G13_2013.3520_nc'']
         else Inl FileNotFoundError),
       isdir = (\<lambda>path. False),
       listdir = (\<lambda>path. []),
       reformatters =
         [(''ucar'', [(''level1b'', PObj ''function''), (''level2a'', PObj ''function''),
                      (''level2b'', PObj ''function''),
                      (''archiveBucket'', PStr ''ucar-earth-ro-archive''),
                      (''liveupdateBucket'', PStr ''ucar-earth-ro-liveupdate'')])],
       valid_missions_aws = [''cosmic1''],
       get_receiver_satellites = (\<lambda>mission. [[(''ucar'', ''cosmic1'')]]),
       re_search_group = literal_group \<rparr>"

text \<open>
  The state of \<^verbatim>\<open>definejobs\<close> inside the UCAR branch for file type \<^verbatim>\<open>level2b\<close>,
  before anything is listed.
\<close>

definition sample_state :: dstate where
  "sample_state =
     \<lparr> UCARprefix = Some ''s3://ucar-earth-ro-archive'', ROMSAFprefix = None, JPLprefix = None,
       EUMETSATprefix = None, level = Some ''level2'', jpl_file_type = None, subdirs = None,
       joblist = [], dlog = [], scanned = [] \<rparr>"

text \<open>
  The words of the claim about \<^verbatim>\<open>level2b\<close>: the subdirectories whose names begin
  with \<^verbatim>\<open>wetPf2\<close>, and only when there is none, the first one whose name begins with
  \<^verbatim>\<open>wetPrf\<close>. A listing is \<open>wetPf2_first\<close> when no \<^verbatim>\<open>wetPrf\<close> entry comes
  before a \<^verbatim>\<open>wetPf2\<close> entry, as in a listing sorted by name.
\<close>

definition level2b_claimed :: "string list \<Rightarrow> string list" where
  "level2b_claimed sds =
     (let wetPf2 = filter (\<lambda>subdir. starts_with ''wetPf2'' (path_tail subdir)) sds
      in if wetPf2 \<noteq> [] then wetPf2
         else take 1 (filter (\<lambda>subdir. starts_with ''wetPrf'' (path_tail subdir)) sds))"

fun wetPf2_first :: "string list \<Rightarrow> bool" where
  "wetPf2_first [] = True"
| "wetPf2_first (x # xs) =
     ((starts_with ''wetPrf'' (path_tail x) \<longrightarrow>
        (\<forall>z \<in> set xs. \<not> starts_with ''wetPf2'' (path_tail z))) \<and>
      wetPf2_first xs)"

section \<open>Predicates used in the proofs\<close>

text \<open>
  The invariant of the loop while every tuple has root \<open>r\<close> and center \<open>c\<close>: the
  \<^verbatim>\<open>last_\<close> variables are unset or hold \<open>r\<close> and \<open>c\<close>, and inside a batch
  \<^verbatim>\<open>out\<close> is a manifest for \<open>r\<close> and \<open>c\<close> whose files are among \<open>S\<close>.
\<close>

definition compatible :: "string \<Rightarrow> pyval \<Rightarrow> locals \<Rightarrow> bool" where
  "compatible r c l =
     ((last_input_root_path l = None \<or> last_input_root_path l = Some r) \<and>
      (last_processing_center l = PNone \<or> last_processing_center l = c))"

definition good :: "string \<Rightarrow> pyval \<Rightarrow> string set \<Rightarrow> manifest \<Rightarrow> bool" where
  "good r c S m = (InputPrefix m = r \<and> ProcessingCenter m = c \<and> set (InputFiles m) \<subseteq> S)"

definition pending :: "string \<Rightarrow> pyval \<Rightarrow> int \<Rightarrow> string set \<Rightarrow> locals \<Rightarrow> bool" where
  "pending r c k S l =
     (compatible r c l \<and> 0 \<le> njobs l \<and>
      (njobs l mod k \<noteq> 0 \<longrightarrow> (\<exists>m. out l = Some m \<and> good r c S m)))"

text \<open>
  A value is \<open>native\<close> when it is built from \<^verbatim>\<open>None\<close>, booleans, integers, strings,
  lists and dictionaries only: these are the values that \<^verbatim>\<open>json.dump\<close> accepts, and
  \<^verbatim>\<open>json.load\<close> gives each of them back from its document.
\<close>

fun native :: "pyval \<Rightarrow> bool" where
  "native (PObj name) = False"
| "native (PList xs) = list_all native xs"
| "native (PDict kvs) = list_all (\<lambda>kv. native (snd kv)) kvs"
| "native v = True"

text \<open>The jobs collected so far are all native.\<close>

definition native_jobs :: "dstate \<Rightarrow> bool" where
  "native_jobs st = list_all native (joblist st)"

section \<open>Properties of the job file iterator\<close>

text \<open>
  Claim C7. Constructing a \<^verbatim>\<open>DASKjobs\<close> from input that is not a dictionary, or that
  lacks the key \<^verbatim>\<open>prefixes\<close> or \<^verbatim>\<open>jobs\<close>, or whose \<^verbatim>\<open>jobs\<close> is not a list, or
  whose \<^verbatim>\<open>jobs\<close> is the empty list, raises \<^verbatim>\<open>DASKjobsError\<close> with the message
  \<^verbatim>\<open>InvalidJobDefinitions\<close>, \<^verbatim>\<open>InvalidJobDefinitionsKeys\<close>,
  \<^verbatim>\<open>InvalidJobDefinitionsJobs\<close>, \<^verbatim>\<open>NoJobDefinitionsJobs\<close> respectively, whatever
  the listing and the session are; the four messages are pairwise different.
\<close>

theorem DASKjobs_init_error_kinds:
  "((\<forall>kvs. job_definitions \<noteq> PDict kvs) \<longrightarrow>
      DASKjobs_init ls job_definitions sess =
        Inl (DASKjobsError ''InvalidJobDefinitions'' ''job_definitions is not a dictionary'')) \<and>
   (\<forall>kvs. job_definitions = PDict kvs \<and>
      (''prefixes'' \<notin> fst ` set kvs \<or> ''jobs'' \<notin> fst ` set kvs) \<longrightarrow>
      DASKjobs_init ls job_definitions sess =
        Inl (DASKjobsError ''InvalidJobDefinitionsKeys''
              (if ''prefixes'' \<notin> fst ` set kvs
               then ''job_definitions does not have key prefixes''
               else ''job_definitions does not have key jobs''))) \<and>
   (\<forall>kvs. job_definitions = PDict kvs \<and>
      ''prefixes'' \<in> fst ` set kvs \<and> ''jobs'' \<in> fst ` set kvs \<and>
      (\<forall>js. map_of kvs ''jobs'' \<noteq> Some (PList js)) \<longrightarrow>
      DASKjobs_init ls job_definitions sess =
        Inl (DASKjobsError ''InvalidJobDefinitionsJobs''
              ''job_definitions['jobs'] is not a list'')) \<and>
   (\<forall>kvs. job_definitions = PDict kvs \<and>
      ''prefixes'' \<in> fst ` set kvs \<and> ''jobs'' \<in> fst ` set kvs \<and>
      map_of kvs ''jobs'' = Some (PList []) \<longrightarrow>
      DASKjobs_init ls job_definitions sess =
        Inl (DASKjobsError ''NoJobDefinitionsJobs'' ''no jobs in job_definitions['jobs']'')) \<and>
   distinct [''InvalidJobDefinitions'', ''InvalidJobDefinitionsKeys'',
             ''InvalidJobDefinitionsJobs'', ''NoJobDefinitionsJobs'']"
proof (intro conjI allI impI)
  assume "\<forall>kvs. job_definitions \<noteq> PDict kvs"
  then show "DASKjobs_init ls job_definitions sess =
      Inl (DASKjobsError ''InvalidJobDefinitions'' ''job_definitions is not a dictionary'')"
    by (cases job_definitions) (simp_all add: DASKjobs_init_def)
next
  fix kvs
  assume "job_definitions = PDict kvs \<and>
      (''prefixes'' \<notin> fst ` set kvs \<or> ''jobs'' \<notin> fst ` set kvs)"
  then show "DASKjobs_init ls job_definitions sess =
        Inl (DASKjobsError ''InvalidJobDefinitionsKeys''
              (if ''prefixes'' \<notin> fst ` set kvs
               then ''job_definitions does not have key prefixes''
               else ''job_definitions does not have key jobs''))"
    by (auto simp: DASKjobs_init_def)
next
  fix kvs
  assume a: "job_definitions = PDict kvs \<and>
      ''prefixes'' \<in> fst ` set kvs \<and> ''jobs'' \<in> fst ` set kvs \<and>
      (\<forall>js. map_of kvs ''jobs'' \<noteq> Some (PList js))"
  then have "map_of kvs ''jobs'' \<noteq> None"
    by (simp add: map_of_eq_None_iff)
  then obtain v where v: "map_of kvs ''jobs'' = Some v" by blast
  with a have "\<forall>js. v \<noteq> PList js" by simp
  with a v show "DASKjobs_init ls job_definitions sess =
        Inl (DASKjobsError ''InvalidJobDefinitionsJobs''
              ''job_definitions['jobs'] is not a list'')"
    by (cases v) (simp_all add: DASKjobs_init_def)
next
  fix kvs
  assume "job_definitions = PDict kvs \<and>
      ''prefixes'' \<in> fst ` set kvs \<and> ''jobs'' \<in> fst ` set kvs \<and>
      map_of kvs ''jobs'' = Some (PList [])"
  then show "DASKjobs_init ls job_definitions sess =
        Inl (DASKjobsError ''NoJobDefinitionsJobs'' ''no jobs in job_definitions['jobs']'')"
    by (simp add: DASKjobs_init_def)
next
  show "distinct [''InvalidJobDefinitions'', ''InvalidJobDefinitionsKeys'',
             ''InvalidJobDefinitionsJobs'', ''NoJobDefinitionsJobs'']"
    by simp
qed

theorem DASKjobs_init_error_kinds_witness:
  "DASKjobs_init sample_ls (PList []) None =
     Inl (DASKjobsError ''InvalidJobDefinitions'' ''job_definitions is not a dictionary'') \<and>
   DASKjobs_init sample_ls (PDict [(''prefixes'', PDict [])]) None =
     Inl (DASKjobsError ''InvalidJobDefinitionsKeys''
           ''job_definitions does not have key jobs'') \<and>
   DASKjobs_init sample_ls (PDict [(''prefixes'', PDict []), (''jobs'', PStr ''none'')]) None =
     Inl (DASKjobsError ''InvalidJobDefinitionsJobs'' ''job_definitions['jobs'] is not a list'') \<and>
   DASKjobs_init sample_ls (PDict [(''prefixes'', PDict []), (''jobs'', PList [])]) None =
     Inl (DASKjobsError ''NoJobDefinitionsJobs'' ''no jobs in job_definitions['jobs']'')"
  using DASKjobs_init_error_kinds [of "PList []" sample_ls None]
        DASKjobs_init_error_kinds [of "PDict [(''prefixes'', PDict [])]" sample_ls None]
        DASKjobs_init_error_kinds
          [of "PDict [(''prefixes'', PDict []), (''jobs'', PStr ''none'')]" sample_ls None]
        DASKjobs_init_error_kinds
          [of "PDict [(''prefixes'', PDict []), (''jobs'', PList [])]" sample_ls None]
  by simp

text \<open>
  Claim C4 says that a job whose file list is empty is consumed without any error but
  \<^verbatim>\<open>StopIteration\<close>. The code tests for an empty buffer once, before it loads the
  next job, and not after: a job with an empty file list that comes after another job
  makes the request that loads it fail. Here the first job has one file and the second
  none: the first request returns the tuple of that file, and the second request, which
  drops the first job and loads the empty list of the second, reads
  \<^verbatim>\<open>self.inputfiles[0]\<close> and raises \<^verbatim>\<open>IndexError\<close>, with the empty job still the
  current one.
\<close>

theorem empty_later_job_raises_IndexError:
  "DASKjobs_init sample_ls
     (sample_definitions [''cosmic1/atmPrf/2009.001'', ''cosmic1/atmPrf/2009.002''])
     (Some sample_session) =
     Inr \<lparr> jobs = [sample_job ''cosmic1/atmPrf/2009.001'', sample_job ''cosmic1/atmPrf/2009.002''],
           prefixes = PDict [(''ucar'', PStr ''s3://ucar-archive'')],
           inputfiles =
             [''ucar-archive/cosmic1/atmPrf/2009.001/atmPrf_C001.2009.001.00.05.G13_nc''] \<rparr> \<and>
   DASKjobs_next sample_ls
     \<lparr> jobs = [sample_job ''cosmic1/atmPrf/2009.001'', sample_job ''cosmic1/atmPrf/2009.002''],
       prefixes = PDict [(''ucar'', PStr ''s3://ucar-archive'')],
       inputfiles =
         [''ucar-archive/cosmic1/atmPrf/2009.001/atmPrf_C001.2009.001.00.05.G13_nc''] \<rparr> =
     (Inr (PStr ''level2a'', PStr ''ucar'', ''s3://ucar-archive'',
           ''cosmic1/atmPrf/2009.001/atmPrf_C001.2009.001.00.05.G13_nc''),
      \<lparr> jobs = [sample_job ''cosmic1/atmPrf/2009.001'', sample_job ''cosmic1/atmPrf/2009.002''],
        prefixes = PDict [(''ucar'', PStr ''s3://ucar-archive'')],
        inputfiles = [] \<rparr>) \<and>
   DASKjobs_next sample_ls
     \<lparr> jobs = [sample_job ''cosmic1/atmPrf/2009.001'', sample_job ''cosmic1/atmPrf/2009.002''],
       prefixes = PDict [(''ucar'', PStr ''s3://ucar-archive'')],
       inputfiles = [] \<rparr> =
     (Inl IndexError,
      \<lparr> jobs = [sample_job ''cosmic1/atmPrf/2009.002''],
        prefixes = PDict [(''ucar'', PStr ''s3://ucar-archive'')],
        inputfiles = [] \<rparr>)"
  by (simp add: DASKjobs_init_def DASKjobs_next_def advance_def current_def
      sample_definitions_def sample_job_def loadfiles_def bind_exn_def path_join_def
      sample_ls_def re_search_nc_def nc_suffix_def)

text \<open>
  The processing center of a tuple is never \<^verbatim>\<open>None\<close>: it has been used as a key of
  (or an index into) the prefixes, and \<^verbatim>\<open>None\<close> is neither.
\<close>

lemma getitem_None_key: "getitem v PNone = Inr x \<Longrightarrow> False"
  by (cases v) auto

lemma DASKjobs_next_center:
  "DASKjobs_next ls self = (Inr (file_type, processing_center, root, rel), self') \<Longrightarrow>
   processing_center \<noteq> PNone"
  by (auto simp: DASKjobs_next_def current_def Let_def
      split: prod.splits sum.splits list.splits pyval.splits dest: getitem_None_key)

lemma drain_center:
  "t \<in> set (fst (drain ls self)) \<Longrightarrow> fst (snd t) \<noteq> PNone"
proof (induction ls self rule: drain.induct)
  case (1 ls self)
  obtain r self' where n: "DASKjobs_next ls self = (r, self')"
    by (cases "DASKjobs_next ls self")
  show ?case
  proof (cases r)
    case (Inl e)
    then show ?thesis using "1.prems" n by (subst (asm) drain.simps) simp
  next
    case (Inr u)
    obtain ft pc root rel where u: "u = (ft, pc, root, rel)" by (cases u)
    have "t = u \<or> t \<in> set (fst (drain ls self'))"
      using "1.prems" n Inr by (subst (asm) drain.simps) auto
    then show ?thesis
    proof
      assume "t = u"
      then show ?thesis using DASKjobs_next_center [of ls self ft pc root rel self'] n Inr u
        by simp
    next
      assume "t \<in> set (fst (drain ls self'))"
      then show ?thesis using "1.IH" n Inr by auto
    qed
  qed
qed












section \<open>Properties of the batch splitter\<close>

subsection \<open>The loop on a homogeneous stream\<close>

lemma py_ne_refl [simp]: "\<not> py_ne c c"
  by (cases c) auto

lemma for_loop_append:
  "for_loop tmpl k sess (xs @ ys) lw =
     (case for_loop tmpl k sess xs lw of
        (Continue, lw') \<Rightarrow> for_loop tmpl k sess ys lw'
      | r \<Rightarrow> r)"
  by (induction xs arbitrary: lw) (auto split: prod.splits flow.splits)

lemma div_step:
  fixes n k :: int
  assumes "0 < k" "0 \<le> n"
  shows "(n + 1) div k = n div k + (if (n + 1) mod k = 0 then 1 else 0)"
proof -
  define q where "q = n div k"
  define m where "m = n mod k"
  have n: "n = k * q + m" by (simp add: q_def m_def)
  have m: "0 \<le> m" "m < k" using assms by (simp_all add: m_def)
  show ?thesis
  proof (cases "m + 1 = k")
    case True
    then have "n + 1 = k * (q + 1) + 0" using n by (simp add: algebra_simps)
    then have "(n + 1) div k = q + 1" "(n + 1) mod k = 0"
      using assms
      by (simp_all only: int_div_pos_eq [of _ k "q + 1" 0] int_mod_pos_eq [of _ k "q + 1" 0])
    then show ?thesis by (simp add: q_def)
  next
    case False
    then have lt: "m + 1 < k" using m by simp
    have "n + 1 = k * q + (m + 1)" using n by simp
    then have "(n + 1) div k = q" "(n + 1) mod k = m + 1"
      using lt m int_div_pos_eq [of "n + 1" k q "m + 1"] int_mod_pos_eq [of "n + 1" k q "m + 1"]
      by simp_all
    then show ?thesis using m by (simp add: q_def)
  qed
qed

lemma loop_body_eq:
  assumes "0 < k" "compatible r c l"
    and "njobs l mod k \<noteq> 0 \<Longrightarrow> out l = Some m0"
  shows "loop_body tmpl k (Some s) (ft, c, r, rel) (l, w) =
     (let m = (if njobs l mod k = 0
               then \<lparr> InputPrefix = r, ProcessingCenter = c, InputFiles = [rel] \<rparr>
               else m0\<lparr> InputFiles := InputFiles m0 @ [rel] \<rparr>);
          full = ((njobs l + 1) mod k = 0)
      in (Continue,
          l\<lparr> last_input_root_path := Some r, last_processing_center := c, out := Some m,
             njobs := njobs l + 1, nfiles := (if full then nfiles l + 1 else nfiles l) \<rparr>,
          if full then w\<lparr> logged := logged w @ [INFO_writing_to (tmpl (nfiles l + 1))],
                          written := written w @ [(tmpl (nfiles l + 1), m)] \<rparr>
          else w))"
  using assms
  by (auto simp: loop_body_def compatible_def Let_def writeOutputJSONfile_def)

lemma loop_body_ok:
  assumes "0 < k" "pending r c k S l"
    and "loop_body tmpl k (Some s) (ft, c, r, rel) (l, w) = (fl, l', w')"
  shows "fl = Continue \<and> pending r c k (insert rel S) l' \<and>
          (\<exists>m. out l' = Some m \<and> good r c (insert rel S) m \<and> InputFiles m \<noteq> []) \<and>
          last_input_root_path l' = Some r \<and> last_processing_center l' = c \<and>
          njobs l' = njobs l + 1 \<and>
          (\<exists>ws. written w' = written w @ ws \<and>
                nfiles l' = nfiles l + int (length ws) \<and>
                int (length ws) = (njobs l + 1) div k - njobs l div k \<and>
                (\<forall>fm \<in> set ws. good r c (insert rel S) (snd fm)))"
proof -
  have c: "compatible r c l" and n: "0 \<le> njobs l"
    using assms(2) by (simp_all add: pending_def)
  obtain m0 where m0: "njobs l mod k \<noteq> 0 \<Longrightarrow> out l = Some m0 \<and> good r c S m0"
    using assms(2) by (auto simp: pending_def)
  note E = loop_body_eq [OF assms(1) c, of m0 tmpl s ft rel w]
  note D = div_step [OF assms(1) n]
  show ?thesis
  proof (cases "njobs l mod k = 0")
    case True
    with E assms(3) D n show ?thesis
      by (cases "(njobs l + 1) mod k = 0")
        (auto simp: Let_def pending_def compatible_def good_def)
  next
    case False
    with E assms(3) D m0 n show ?thesis
      by (cases "(njobs l + 1) mod k = 0")
        (auto simp: Let_def pending_def compatible_def good_def)
  qed
qed

lemma good_mono: "good r c S m \<Longrightarrow> S \<subseteq> S' \<Longrightarrow> good r c S' m"
  by (auto simp: good_def)

lemma for_loop_ok:
  assumes "0 < k" "homogeneous r c ts" "pending r c k S l"
    and "for_loop tmpl k (Some s) ts (l, w) = (fl, l', w')"
  shows "fl = Continue \<and> pending r c k (S \<union> relpath ` set ts) l' \<and>
          (ts \<noteq> [] \<longrightarrow>
             (\<exists>m. out l' = Some m \<and> good r c (S \<union> relpath ` set ts) m \<and> InputFiles m \<noteq> []) \<and>
             last_input_root_path l' = Some r \<and> last_processing_center l' = c) \<and>
          njobs l' = njobs l + int (length ts) \<and>
          (\<exists>ws. written w' = written w @ ws \<and>
                nfiles l' = nfiles l + int (length ws) \<and>
                int (length ws) = (njobs l + int (length ts)) div k - njobs l div k \<and>
                (\<forall>fm \<in> set ws. good r c (S \<union> relpath ` set ts) (snd fm)))"
  using assms(2-)
proof (induction ts arbitrary: l w S)
  case Nil
  then show ?case by simp
next
  case (Cons t ts)
  obtain ft rel where t: "t = (ft, c, r, rel)"
    using Cons.prems(1) by (cases t) (auto simp: homogeneous_def)
  obtain fl1 l1 w1 where b: "loop_body tmpl k (Some s) (ft, c, r, rel) (l, w) = (fl1, l1, w1)"
    by (metis prod_cases3)
  note B = loop_body_ok [OF assms(1) Cons.prems(2) b]
  from B have fl1: "fl1 = Continue" by simp
  have rest: "for_loop tmpl k (Some s) ts (l1, w1) = (fl, l', w')"
    using Cons.prems(3) b fl1 by (simp add: t)
  have h: "homogeneous r c ts" using Cons.prems(1) by (simp add: homogeneous_def)
  have p1: "pending r c k (insert rel S) l1" using B by simp
  note R = Cons.IH [OF h p1 rest]
  have S: "insert rel S \<union> relpath ` set ts = S \<union> relpath ` set (t # ts)"
    by (auto simp: t relpath_def)
  obtain ws1 where ws1: "written w1 = written w @ ws1" "nfiles l1 = nfiles l + int (length ws1)"
     "int (length ws1) = (njobs l + 1) div k - njobs l div k"
     "\<forall>fm \<in> set ws1. good r c (insert rel S) (snd fm)" using B by blast
  obtain ws2 where ws2: "written w' = written w1 @ ws2" "nfiles l' = nfiles l1 + int (length ws2)"
     "int (length ws2) = (njobs l1 + int (length ts)) div k - njobs l1 div k"
     "\<forall>fm \<in> set ws2. good r c (insert rel S \<union> relpath ` set ts) (snd fm)" using R by blast
  have n1: "njobs l1 = njobs l + 1" using B by simp
  have W: "written w' = written w @ (ws1 @ ws2)" using ws1 ws2 by simp
  have N: "nfiles l' = nfiles l + int (length (ws1 @ ws2))" using ws1 ws2 by simp
  have L: "int (length (ws1 @ ws2)) = (njobs l + int (length (t # ts))) div k - njobs l div k"
    using ws1(3) ws2(3) n1 by (simp add: algebra_simps)
  have G: "\<forall>fm \<in> set (ws1 @ ws2). good r c (S \<union> relpath ` set (t # ts)) (snd fm)"
    using ws1(4) ws2(4) unfolding S [symmetric] by (auto intro: good_mono)
  have O: "(\<exists>m. out l' = Some m \<and> good r c (S \<union> relpath ` set (t # ts)) m \<and>
                InputFiles m \<noteq> []) \<and>
             last_input_root_path l' = Some r \<and> last_processing_center l' = c"
  proof (cases "ts = []")
    case True
    then have "l' = l1" using rest by simp
    then show ?thesis using B True by (auto simp: t relpath_def)
  next
    case False
    then show ?thesis using R unfolding S by simp
  qed
  show ?case
    using R O W N L G n1 unfolding S by (intro conjI exI[of _ "ws1 @ ws2"]) simp_all
qed

lemma pending_initialize: "0 < k \<Longrightarrow> pending r c k {} initialize"
  by (simp add: pending_def compatible_def initialize_def)

text \<open>
  On a homogeneous stream of \<open>n > 0\<close> tuples the splitter writes \<open>n div k + 1\<close>
  manifests: one each time the count reaches a multiple of \<open>k\<close>, and one after the
  loop, where \<^verbatim>\<open>out\<close> is never empty.
\<close>

lemma split_stream_count:
  assumes "0 < k" "ts \<noteq> []" "homogeneous r c ts"
  shows "\<exists>w'. split_stream template k (Some s) (ts, StopIteration) w = (Returned, w') \<and>
          int (length (written w')) = int (length (written w)) + int (length ts) div k + 1"
proof -
  obtain fl l' w1 where f: "for_loop template k (Some s) ts (initialize, w) = (fl, l', w1)"
    by (metis prod_cases3)
  note F = for_loop_ok [OF assms(1) assms(3) pending_initialize [OF assms(1)] f]
  obtain m where m: "out l' = Some m" "InputFiles m \<noteq> []" using F assms(2) by blast
  obtain ws where ws: "written w1 = written w @ ws"
    "int (length ws) = (njobs initialize + int (length ts)) div k - njobs initialize div k"
    using F by blast
  have fl: "fl = Continue" using F by simp
  show ?thesis
    using f fl m ws
    by (simp add: split_stream_def after_loop_def writeOutputJSONfile_def Let_def initialize_def)
qed

subsection \<open>The claims\<close>

text \<open>
  Claim C8. With \<^verbatim>\<open>jobsperfile = 3\<close> and a stream of exactly seven tuples that share
  one input root path and one processing center, the splitter returns after writing
  exactly three manifests, holding the relative paths of the first three, the next three
  and the last tuple, in stream order, under the file names the template gives for the
  indices 1, 2 and 3.
\<close>

theorem seven_tuples_three_manifests:
  assumes "length ts = 7" and "homogeneous r c ts"
  shows "split_stream template 3 (Some s) (ts, StopIteration) w =
     (Returned,
      w\<lparr> logged := logged w @ [INFO_writing_to (template 1), INFO_writing_to (template 2),
                                INFO_writing_to (template 3)],
         written := written w @
           [(template 1, \<lparr> InputPrefix = r, ProcessingCenter = c,
                           InputFiles = map relpath (take 3 ts) \<rparr>),
            (template 2, \<lparr> InputPrefix = r, ProcessingCenter = c,
                           InputFiles = map relpath (take 3 (drop 3 ts)) \<rparr>),
            (template 3, \<lparr> InputPrefix = r, ProcessingCenter = c,
                           InputFiles = map relpath (drop 6 ts) \<rparr>)] \<rparr>)"
proof -
  obtain t1 t2 t3 t4 t5 t6 t7 where ts: "ts = [t1, t2, t3, t4, t5, t6, t7]"
    using assms(1) by (auto simp: length_Suc_conv eval_nat_numeral)
  obtain f1 p1 f2 p2 f3 p3 f4 p4 f5 p5 f6 p6 f7 p7 where
    t: "t1 = (f1, c, r, p1)" "t2 = (f2, c, r, p2)" "t3 = (f3, c, r, p3)" "t4 = (f4, c, r, p4)"
       "t5 = (f5, c, r, p5)" "t6 = (f6, c, r, p6)" "t7 = (f7, c, r, p7)"
    using assms(2) unfolding ts homogeneous_def
    by (cases t1, cases t2, cases t3, cases t4, cases t5, cases t6, cases t7) auto
  show ?thesis
    unfolding ts t
    by (simp add: split_stream_def loop_body_def initialize_def after_loop_def
        writeOutputJSONfile_def relpath_def Let_def)
qed

theorem seven_tuples_three_manifests_witness:
  "length (sample_stream 7) = 7 \<and>
   homogeneous ''s3://ucar-archive'' (PStr ''ucar'') (sample_stream 7) \<and>
   split_stream sample_template 3 (Some sample_session) (sample_stream 7, StopIteration)
       empty_world =
     (Returned,
      empty_world
       \<lparr> logged := logged empty_world @
            [INFO_writing_to (sample_template 1), INFO_writing_to (sample_template 2),
             INFO_writing_to (sample_template 3)],
         written := written empty_world @
           [(sample_template 1,
             \<lparr> InputPrefix = ''s3://ucar-archive'', ProcessingCenter = PStr ''ucar'',
               InputFiles = map relpath (take 3 (sample_stream 7)) \<rparr>),
            (sample_template 2,
             \<lparr> InputPrefix = ''s3://ucar-archive'', ProcessingCenter = PStr ''ucar'',
               InputFiles = map relpath (take 3 (drop 3 (sample_stream 7))) \<rparr>),
            (sample_template 3,
             \<lparr> InputPrefix = ''s3://ucar-archive'', ProcessingCenter = PStr ''ucar'',
               InputFiles = map relpath (drop 6 (sample_stream 7)) \<rparr>)] \<rparr>)"
proof -
  have len: "length (sample_stream 7) = 7"
    by (simp add: sample_stream_def)
  have hom: "homogeneous ''s3://ucar-archive'' (PStr ''ucar'') (sample_stream 7)"
    by (auto simp: sample_stream_def homogeneous_def)
  show ?thesis
    using len hom seven_tuples_three_manifests [OF len hom] by blast
qed

text \<open>
  Claim C1 counts \<open>\<lceil>n / k\<rceil>\<close> manifests, also when \<open>n\<close> is a multiple of \<open>k\<close>. The
  code writes one more in that case: after the loop \<^verbatim>\<open>out\<close> still holds the batch
  that was just flushed, so the test \<^verbatim>\<open>len(out['InputFiles']) > 0\<close> succeeds and the
  same batch is written a second time under the next index. Here \<open>k = 3\<close> and the
  stream has three tuples with one root and one center: two manifests are written, with
  the same three files, where the claim promises one.
\<close>

theorem full_batch_written_twice:
  "split_stream template 3 (Some s)
     ([(f1, c, r, p1), (f2, c, r, p2), (f3, c, r, p3)], StopIteration) w =
   (Returned,
    w\<lparr> logged := logged w @ [INFO_writing_to (template 1), INFO_writing_to (template 2)],
       written := written w @
         [(template 1, \<lparr> InputPrefix = r, ProcessingCenter = c, InputFiles = [p1, p2, p3] \<rparr>),
          (template 2, \<lparr> InputPrefix = r, ProcessingCenter = c, InputFiles = [p1, p2, p3] \<rparr>)] \<rparr>)"
  by (simp add: split_stream_def loop_body_def initialize_def after_loop_def
        writeOutputJSONfile_def Let_def)

text \<open>
  Claim C2. Let the stream begin with tuples \<open>pre\<close> that share the root \<open>r\<close> and the
  center \<open>c\<close>, followed by a tuple whose root or center differs. Then the splitter
  logs an error and returns at once: the rest of the stream and the post-loop flush are
  skipped. The world it leaves is the one reached after \<open>pre\<close>, plus that one error
  message: the manifests written are exactly those flushed while \<open>pre\<close> was
  consumed, \<open>length pre div k\<close> of them, each for \<open>r\<close> and \<open>c\<close> and holding files
  of \<open>pre\<close> only. (The abort is the logged error and the early \<^verbatim>\<open>return\<close>; no
  exception is raised.)
\<close>

theorem heterogeneous_aborts:
  assumes "0 < k" "pre \<noteq> []" "homogeneous r c pre" "c \<noteq> PNone"
    and "r' \<noteq> r \<or> py_ne c' c"
  shows "split_stream template k (Some s) (pre @ (ft, c', r', rel) # rest, e) w =
           (Returned,
            (snd (snd (for_loop template k (Some s) pre (initialize, w))))
              \<lparr> logged := logged (snd (snd (for_loop template k (Some s) pre (initialize, w)))) @
                   [if r' \<noteq> r then ERROR_input_root_path r r'
                    else ERROR_processing_center c c'] \<rparr>) \<and>
         (\<exists>ws. written (snd (snd (for_loop template k (Some s) pre (initialize, w)))) =
                 written w @ ws \<and>
               int (length ws) = int (length pre) div k \<and>
               (\<forall>fm \<in> set ws. InputPrefix (snd fm) = r \<and> ProcessingCenter (snd fm) = c \<and>
                                 set (InputFiles (snd fm)) \<subseteq> relpath ` set pre))"
proof -
  obtain fl l1 w1 where f: "for_loop template k (Some s) pre (initialize, w) = (fl, l1, w1)"
    by (metis prod_cases3)
  note F = for_loop_ok [OF assms(1) assms(3) pending_initialize [OF assms(1)] f]
  have fl: "fl = Continue" using F by simp
  have last: "last_input_root_path l1 = Some r" "last_processing_center l1 = c"
    using F assms(2) by simp_all
  have body: "loop_body template k (Some s) (ft, c', r', rel) (l1, w1) =
      (Return, l1, w1\<lparr> logged := logged w1 @
         [if r' \<noteq> r then ERROR_input_root_path r r' else ERROR_processing_center c c'] \<rparr>)"
    using last assms(4,5) by (auto simp: loop_body_def)
  have 1: "split_stream template k (Some s) (pre @ (ft, c', r', rel) # rest, e) w =
      (Returned, w1\<lparr> logged := logged w1 @
         [if r' \<noteq> r then ERROR_input_root_path r r' else ERROR_processing_center c c'] \<rparr>)"
    by (simp add: split_stream_def for_loop_append f fl body)
  obtain ws where ws: "written w1 = written w @ ws"
    "int (length ws) = (njobs initialize + int (length pre)) div k - njobs initialize div k"
    "\<forall>fm \<in> set ws. good r c ({} \<union> relpath ` set pre) (snd fm)"
    using F by blast
  have 2: "int (length ws) = int (length pre) div k" using ws(2) by (simp add: initialize_def)
  have 3: "\<forall>fm \<in> set ws. InputPrefix (snd fm) = r \<and> ProcessingCenter (snd fm) = c \<and>
                                 set (InputFiles (snd fm)) \<subseteq> relpath ` set pre"
    using ws(3) by (simp add: good_def)
  show ?thesis using 1 ws(1) 2 3 by (simp add: f)
qed

theorem heterogeneous_aborts_witness:
  "(0::int) < 2 \<and> sample_stream 3 \<noteq> [] \<and>
   homogeneous ''s3://ucar-archive'' (PStr ''ucar'') (sample_stream 3) \<and>
   PStr ''ucar'' \<noteq> PNone \<and> py_ne (PStr ''romsaf'') (PStr ''ucar'') \<and>
   split_stream sample_template 2 (Some sample_session)
     (sample_stream 3 @ (PStr ''level2a'', PStr ''romsaf'', ''s3://romsaf-archive'', ''f_nc'') # [],
      StopIteration) empty_world =
     (Returned,
      (snd (snd (for_loop sample_template 2 (Some sample_session) (sample_stream 3)
                   (initialize, empty_world))))
        \<lparr> logged :=
             logged (snd (snd (for_loop sample_template 2 (Some sample_session) (sample_stream 3)
                                 (initialize, empty_world)))) @
             [ERROR_input_root_path ''s3://ucar-archive'' ''s3://romsaf-archive''] \<rparr>) \<and>
   (\<exists>ws. written (snd (snd (for_loop sample_template 2 (Some sample_session) (sample_stream 3)
                              (initialize, empty_world)))) = written empty_world @ ws \<and>
         int (length ws) = int (length (sample_stream 3)) div 2 \<and>
         (\<forall>fm \<in> set ws. InputPrefix (snd fm) = ''s3://ucar-archive'' \<and>
                           ProcessingCenter (snd fm) = PStr ''ucar'' \<and>
                           set (InputFiles (snd fm)) \<subseteq> relpath ` set (sample_stream 3)))"
proof -
  have k: "(0::int) < 2" by simp
  have ne: "sample_stream 3 \<noteq> []" by (simp add: sample_stream_def upt_rec)
  have hom: "homogeneous ''s3://ucar-archive'' (PStr ''ucar'') (sample_stream 3)"
    by (auto simp: sample_stream_def homogeneous_def)
  have c: "PStr ''ucar'' \<noteq> PNone" by simp
  have d: "py_ne (PStr ''romsaf'') (PStr ''ucar'')" by simp
  have d': "''s3://romsaf-archive'' \<noteq> ''s3://ucar-archive'' \<or> py_ne (PStr ''romsaf'') (PStr ''ucar'')"
    by simp
  have r: "''s3://romsaf-archive'' \<noteq> ''s3://ucar-archive''" by simp
  show ?thesis
    using k ne hom c d r
      heterogeneous_aborts [OF k ne hom c d', of sample_template sample_session
        "PStr ''level2a''" "''f_nc''" "[]" StopIteration empty_world]
    by simp
qed

subsection \<open>An iterator that yields nothing\<close>




section \<open>Properties of the job definition builder\<close>

text \<open>
  The three checks at the head of \<^verbatim>\<open>definejobs\<close>. When a requested processing
  center is not a key of \<^verbatim>\<open>reformatters\<close>, or a requested file type is not a key of
  any reformatter dictionary, or a requested mission is not in
  \<^verbatim>\<open>valid_missions['aws']\<close>, \<^verbatim>\<open>definejobs\<close> returns the integer 1: it does not
  raise, it lists no path, and it returns no job set; one error is logged. This holds
  for every date range, every prefix and flag, and with or without a session.
\<close>

lemma definejobs_invalid_input:
  assumes "(\<exists>c \<in> set processing_centers. c \<notin> fst ` set (reformatters env)) \<or>
           (\<exists>f \<in> set file_types. f \<notin> known_file_types env) \<or>
           (\<exists>m \<in> set missions. m \<notin> set (valid_missions_aws env))"
  shows "\<exists>msg. definejobs env daterange missions processing_centers file_types version
            UCARarg ROMSAFarg JPLarg EUMETSATarg nonnominal sess liveupdate =
          (Inr (PInt 1), [LogError msg], [])"
  using assms
  by (auto simp: definejobs_def find_None_iff split: option.splits)

lemma definejobs_invalid_input_example:
  "''noaa'' \<in> set [''ucar'', ''noaa''] \<and> ''noaa'' \<notin> fst ` set (reformatters sample_env) \<and>
   (\<exists>msg. definejobs sample_env (733408, 733408) [''cosmic1''] [''ucar'', ''noaa'']
             [''level2a''] PNone None None None None False None False =
           (Inr (PInt 1), [LogError msg], []))"
proof -
  have 1: "''noaa'' \<in> set [''ucar'', ''noaa'']" by simp
  have 2: "''noaa'' \<notin> fst ` set (reformatters sample_env)" by (simp add: sample_env_def)
  have "(\<exists>c \<in> set [''ucar'', ''noaa'']. c \<notin> fst ` set (reformatters sample_env)) \<or>
        (\<exists>f \<in> set [''level2a'']. f \<notin> known_file_types sample_env) \<or>
        (\<exists>m \<in> set [''cosmic1'']. m \<notin> set (valid_missions_aws sample_env))"
    using 1 2 by blast
  from definejobs_invalid_input [OF this] 1 2 show ?thesis by blast
qed

text \<open>
  Claim C6 says that a requested file type that is not among the registered file-type
  keys makes \<^verbatim>\<open>definejobs\<close> return the failure value at once. The file-type keys
  are the keys that begin with \<^verbatim>\<open>level\<close>, as \<^verbatim>\<open>main\<close> computes them for its help
  text. The check in \<^verbatim>\<open>definejobs\<close> compares the file type with all the keys of the
  reformatter dictionaries, so it also lets the bucket keys pass. With the file type
  \<^verbatim>\<open>archiveBucket\<close>, which is not a file-type key, the checks pass, the UCAR branch
  leaves \<^verbatim>\<open>level\<close> unbound, lists the mission directory and the processing version,
  and raises \<^verbatim>\<open>UnboundLocalError\<close> when it builds the path of the day directory
  (the handler around that listing evaluates the same path again).
\<close>

theorem bucket_key_passes_validation:
  "''archiveBucket'' \<notin> set (sorted_valid_filetypes sample_env) \<and>
   definejobs sample_env (733408, 733408) [''cosmic1''] [''ucar''] [''archiveBucket''] PNone
     None None None None False (Some sample_session) False =
   (Inl UnboundLocalError, [],
    [''s3://ucar-earth-ro-archive/cosmic1'', ''ucar-earth-ro-archive/cosmic1/repro2013''])"
  by code_simp

text \<open>
  Claim C3 says that every branch appends a job only when the resolved directory holds
  at least one file. The ROM SAF and JPL branches test the count; the UCAR and EUMETSAT
  branches append the job with \<^verbatim>\<open>'nfiles': len(filepaths)\<close> whatever the count is.
  Here the UCAR day directory of 2009-01-01 has one \<^verbatim>\<open>atmPrf\<close> subdirectory whose
  listing is empty: the job is appended, with \<^verbatim>\<open>nfiles\<close> 0.
\<close>

theorem ucar_job_without_files:
  "fst (definejobs sample_env (733408, 733408) [''cosmic1''] [''ucar''] [''level2a''] PNone
         None None None None False (Some sample_session) False) =
   Inr (PDict
     [(''prefixes'', PDict [(''ucar'', PStr ''s3://ucar-earth-ro-archive'')]),
      (''jobs'', PList
         [PDict [(''file_type'', PStr ''level2a''), (''processing_center'', PStr ''ucar''),
                 (''mission'', PStr ''cosmic1''), (''date'', PStr ''2009-01-01''),
                 (''input_relative_dir'', PStr ''cosmic1/repro2013/level2/2009/001/atmPrf''),
                 (''nfiles'', PInt 0)]])])"
  by code_simp

subsection \<open>The selection for level2b\<close>

lemma level2b_nonempty:
  "acc \<noteq> [] \<Longrightarrow>
   foldl level2b_step acc sds =
     acc @ filter (\<lambda>subdir. starts_with ''wetPf2'' (path_tail subdir)) sds"
proof (induction sds arbitrary: acc)
  case Nil
  then show ?case by simp
next
  case (Cons x xs)
  have "level2b_step acc x =
          (if starts_with ''wetPf2'' (path_tail x) then acc @ [x] else acc)"
    using Cons.prems by (simp add: level2b_step_def)
  then show ?case using Cons by simp
qed

lemma level2b_sorted:
  "wetPf2_first sds \<Longrightarrow> foldl level2b_step [] sds = level2b_claimed sds"
proof (induction sds)
  case Nil
  then show ?case by (simp add: level2b_claimed_def)
next
  case (Cons x xs)
  show ?case
  proof (cases "starts_with ''wetPf2'' (path_tail x)")
    case True
    then have "level2b_step [] x = [x]" by (simp add: level2b_step_def)
    with True show ?thesis
      by (simp add: level2b_nonempty level2b_claimed_def Let_def)
  next
    case False
    show ?thesis
    proof (cases "starts_with ''wetPrf'' (path_tail x)")
      case True
      with Cons.prems have "filter (\<lambda>subdir. starts_with ''wetPf2'' (path_tail subdir)) xs = []"
        by (simp add: filter_empty_conv)
      moreover have "level2b_step [] x = [x]" using True False by (simp add: level2b_step_def)
      ultimately show ?thesis using True False
        by (simp add: level2b_nonempty level2b_claimed_def Let_def)
    next
      case nprf: False
      have "level2b_step [] x = []" using False nprf by (simp add: level2b_step_def)
      then have "foldl level2b_step [] (x # xs) = foldl level2b_step [] xs"
        by simp
      also have "\<dots> = level2b_claimed xs" using Cons by simp
      also have "\<dots> = level2b_claimed (x # xs)"
        using False nprf by (simp add: level2b_claimed_def Let_def)
      finally show ?thesis .
    qed
  qed
qed

text \<open>
  Whatever the order of the listing, the selection is the first entry that begins with
  \<^verbatim>\<open>wetPf2\<close> or \<^verbatim>\<open>wetPrf\<close>, followed by every later \<^verbatim>\<open>wetPf2\<close> entry.
\<close>

lemma level2b_any_order:
  "foldl level2b_step [] sds =
     (case dropWhile (\<lambda>subdir. \<not> starts_with ''wetPf2'' (path_tail subdir) \<and>
                               \<not> starts_with ''wetPrf'' (path_tail subdir)) sds of
        [] \<Rightarrow> []
      | x # rest \<Rightarrow> x # filter (\<lambda>subdir. starts_with ''wetPf2'' (path_tail subdir)) rest)"
proof (induction sds)
  case Nil
  then show ?case by simp
next
  case (Cons x xs)
  show ?case
  proof (cases "starts_with ''wetPf2'' (path_tail x) \<or> starts_with ''wetPrf'' (path_tail x)")
    case True
    then have "level2b_step [] x = [x]" by (auto simp: level2b_step_def)
    with True show ?thesis by (auto simp: level2b_nonempty)
  next
    case False
    then have "level2b_step [] x = []" by (simp add: level2b_step_def)
    with False Cons show ?thesis by simp
  qed
qed

text \<open>
  A listing sorted by name is \<open>wetPf2_first\<close>: every name that begins with
  \<^verbatim>\<open>wetPf2\<close> is smaller than every name that begins with \<^verbatim>\<open>wetPrf\<close>.
\<close>

lemma wetPf2_before_wetPrf:
  "starts_with ''wetPf2'' b \<Longrightarrow> starts_with ''wetPrf'' a \<Longrightarrow> b < a"
proof -
  assume "starts_with ''wetPf2'' b" "starts_with ''wetPrf'' a"
  then obtain b' a' where "b = ''wetPf2'' @ b'" "a = ''wetPrf'' @ a'"
    unfolding starts_with_def by (metis append_take_drop_id)
  then show ?thesis by (simp add: less_char_def)
qed

lemma sorted_listing:
  "sorted (map path_tail sds) \<Longrightarrow> wetPf2_first sds"
proof (induction sds)
  case Nil
  then show ?case by simp
next
  case (Cons x xs)
  have "\<forall>z \<in> set xs. path_tail x \<le> path_tail z" using Cons.prems by simp
  then have "starts_with ''wetPrf'' (path_tail x) \<longrightarrow>
        (\<forall>z \<in> set xs. \<not> starts_with ''wetPf2'' (path_tail z))"
    using wetPf2_before_wetPrf by (metis leD)
  then show ?case using Cons by simp
qed

lemma ucar_version_job:
  assumes "ucar_version env year doy date mission file_type processingVersion st = (c, st')"
    and "joblist st' \<noteq> joblist st"
  shows "\<exists>sds. subdirs st' = Some sds \<and> length (select_type_subdirs file_type sds) = 1"
  using assms
  by (auto simp: ucar_version_def do_ls_def log_msg_def append_job_def Let_def
      split: sum.splits list.splits option.splits if_splits)

lemma ucar_version_skip:
  assumes "s3_ls env processingVersion = Inr (first # others)"
    and "level st = Some lvl"
    and "s3_ls env (ucar_daydir processingVersion (path_tail first) lvl year doy) = Inr sds"
    and "length (select_type_subdirs file_type sds) \<noteq> 1"
  shows "ucar_version env year doy date mission file_type processingVersion st =
           (Next, st\<lparr> scanned := scanned st @
                        [processingVersion,
                         ucar_daydir processingVersion (path_tail first) lvl year doy],
                      subdirs := Some sds,
                      dlog := dlog st @ [LogInfo ''type_subdirs !=1''] \<rparr>)"
  using assms
  by (simp add: ucar_version_def do_ls_def log_msg_def Let_def)

text \<open>
  Claim C5 says that for \<^verbatim>\<open>level2b\<close> the selection is the \<^verbatim>\<open>wetPf2\<close>
  subdirectories, or else the first \<^verbatim>\<open>wetPrf\<close> one, regardless of the order of the
  listing. The code takes a \<^verbatim>\<open>wetPrf\<close> entry whenever nothing has been selected
  before it, so a \<^verbatim>\<open>wetPrf\<close> entry listed before a \<^verbatim>\<open>wetPf2\<close> entry is selected as
  well. With the day directory of 2009-01-02, where \<^verbatim>\<open>wetPrf\<close> comes first, the code
  selects both entries and skips the day, where the claim selects the single
  \<^verbatim>\<open>wetPf2\<close> entry.
\<close>

theorem level2b_order_counterexample:
  "select_type_subdirs ''level2b''
     [''ucar-earth-ro-archive/cosmic1/repro2013/level2/2009/002/wetPrf'',
      ''ucar-earth-ro-archive/cosmic1/repro2013/level2/2009/002/wetPf2''] =
     [''ucar-earth-ro-archive/cosmic1/repro2013/level2/2009/002/wetPrf'',
      ''ucar-earth-ro-archive/cosmic1/repro2013/level2/2009/002/wetPf2''] \<and>
   level2b_claimed
     [''ucar-earth-ro-archive/cosmic1/repro2013/level2/2009/002/wetPrf'',
      ''ucar-earth-ro-archive/cosmic1/repro2013/level2/2009/002/wetPf2''] =
     [''ucar-earth-ro-archive/cosmic1/repro2013/level2/2009/002/wetPf2''] \<and>
   ucar_version sample_env 2009 2 ''2009-01-02'' ''cosmic1'' ''level2b''
     ''ucar-earth-ro-archive/cosmic1/repro2013'' sample_state =
     (Next,
      sample_state
        \<lparr> scanned := [''ucar-earth-ro-archive/cosmic1/repro2013'',
                      ''ucar-earth-ro-archive/cosmic1/repro2013/level2/2009/002''],
          subdirs := Some [''ucar-earth-ro-archive/cosmic1/repro2013/level2/2009/002/wetPrf'',
                           ''ucar-earth-ro-archive/cosmic1/repro2013/level2/2009/002/wetPf2''],
          dlog := [LogInfo ''type_subdirs !=1''] \<rparr>)"
  by code_simp

text \<open>
  Claim C5, amended. For a listing in which no \<^verbatim>\<open>wetPrf\<close> entry comes before a
  \<^verbatim>\<open>wetPf2\<close> entry (as in a listing sorted by name), the selection for
  \<^verbatim>\<open>level2b\<close> is exactly the subdirectories whose names begin with \<^verbatim>\<open>wetPf2\<close>, and
  when there is none, the first one whose name begins with \<^verbatim>\<open>wetPrf\<close>. For every
  listing, a pass through a processing version appends a job only if the selection from
  the day directory has exactly one element; and when the day directory was listed and
  the selection does not have exactly one element, the pass ends with the message
  \<^verbatim>\<open>type_subdirs !=1\<close> logged and no job appended.
\<close>

theorem level2b_selection:
  "(wetPf2_first sds \<longrightarrow> select_type_subdirs ''level2b'' sds = level2b_claimed sds) \<and>
   (joblist (snd (ucar_version env year doy date mission ''level2b'' processingVersion st)) \<noteq>
      joblist st \<longrightarrow>
    (\<exists>sds'. subdirs (snd (ucar_version env year doy date mission ''level2b''
                             processingVersion st)) = Some sds' \<and>
            length (select_type_subdirs ''level2b'' sds') = 1)) \<and>
   (s3_ls env processingVersion = Inr (first # others) \<and> level st = Some lvl \<and>
    s3_ls env (ucar_daydir processingVersion (path_tail first) lvl year doy) = Inr sds \<and>
    length (select_type_subdirs ''level2b'' sds) \<noteq> 1 \<longrightarrow>
    ucar_version env year doy date mission ''level2b'' processingVersion st =
      (Next, st\<lparr> scanned := scanned st @
                   [processingVersion,
                    ucar_daydir processingVersion (path_tail first) lvl year doy],
                 subdirs := Some sds,
                 dlog := dlog st @ [LogInfo ''type_subdirs !=1''] \<rparr>))"
proof (intro conjI impI)
  assume "wetPf2_first sds"
  then show "select_type_subdirs ''level2b'' sds = level2b_claimed sds"
    by (simp add: select_type_subdirs_def level2b_sorted)
next
  assume a: "joblist (snd (ucar_version env year doy date mission ''level2b''
                             processingVersion st)) \<noteq> joblist st"
  obtain c st' where r: "ucar_version env year doy date mission ''level2b''
                           processingVersion st = (c, st')"
    by (cases "ucar_version env year doy date mission ''level2b'' processingVersion st")
  with a have "joblist st' \<noteq> joblist st" by simp
  from ucar_version_job [OF r this] r
  show "\<exists>sds'. subdirs (snd (ucar_version env year doy date mission ''level2b''
                             processingVersion st)) = Some sds' \<and>
            length (select_type_subdirs ''level2b'' sds') = 1"
    by simp
next
  assume "s3_ls env processingVersion = Inr (first # others) \<and> level st = Some lvl \<and>
    s3_ls env (ucar_daydir processingVersion (path_tail first) lvl year doy) = Inr sds \<and>
    length (select_type_subdirs ''level2b'' sds) \<noteq> 1"
  then show "ucar_version env year doy date mission ''level2b'' processingVersion st =
      (Next, st\<lparr> scanned := scanned st @
                   [processingVersion,
                    ucar_daydir processingVersion (path_tail first) lvl year doy],
                 subdirs := Some sds,
                 dlog := dlog st @ [LogInfo ''type_subdirs !=1''] \<rparr>)"
    using ucar_version_skip by blast
qed

theorem level2b_selection_witness:
  "wetPf2_first [''repro2013/level2/2009/003/wetPf2'', ''repro2013/level2/2009/003/wetPrf''] \<and>
   select_type_subdirs ''level2b''
     [''repro2013/level2/2009/003/wetPf2'', ''repro2013/level2/2009/003/wetPrf''] =
   level2b_claimed
     [''repro2013/level2/2009/003/wetPf2'', ''repro2013/level2/2009/003/wetPrf''] \<and>
   joblist (snd (ucar_version sample_env 2009 1 ''2009-01-01'' ''cosmic1'' ''level2b''
                   ''ucar-earth-ro-archive/cosmic1/repro2013'' sample_state)) \<noteq>
     joblist sample_state \<and>
   (\<exists>sds'. subdirs (snd (ucar_version sample_env 2009 1 ''2009-01-01'' ''cosmic1'' ''level2b''
                           ''ucar-earth-ro-archive/cosmic1/repro2013'' sample_state)) = Some sds' \<and>
           length (select_type_subdirs ''level2b'' sds') = 1) \<and>
   length (select_type_subdirs ''level2b''
     [''ucar-earth-ro-archive/cosmic1/repro2013/level2/2009/002/wetPrf'',
      ''ucar-earth-ro-archive/cosmic1/repro2013/level2/2009/002/wetPf2'']) \<noteq> 1 \<and>
   ucar_version sample_env 2009 2 ''2009-01-02'' ''cosmic1'' ''level2b''
     ''ucar-earth-ro-archive/cosmic1/repro2013'' sample_state =
     (Next,
      sample_state
        \<lparr> scanned := scanned sample_state @
            [''ucar-earth-ro-archive/cosmic1/repro2013'',
             ucar_daydir ''ucar-earth-ro-archive/cosmic1/repro2013''
               (path_tail ''ucar-earth-ro-archive/cosmic1/repro2013/level1b'') ''level2'' 2009 2],
          subdirs := Some [''ucar-earth-ro-archive/cosmic1/repro2013/level2/2009/002/wetPrf'',
                           ''ucar-earth-ro-archive/cosmic1/repro2013/level2/2009/002/wetPf2''],
          dlog := dlog sample_state @ [LogInfo ''type_subdirs !=1''] \<rparr>)"
proof -
  have h1: "wetPf2_first [''repro2013/level2/2009/003/wetPf2'',
                          ''repro2013/level2/2009/003/wetPrf'']"
    by code_simp
  have h2: "joblist (snd (ucar_version sample_env 2009 1 ''2009-01-01'' ''cosmic1'' ''level2b''
                   ''ucar-earth-ro-archive/cosmic1/repro2013'' sample_state)) \<noteq>
     joblist sample_state"
    by code_simp
  have h3: "s3_ls sample_env ''ucar-earth-ro-archive/cosmic1/repro2013'' =
      Inr (''ucar-earth-ro-archive/cosmic1/repro2013/level1b'' #
           [''ucar-earth-ro-archive/cosmic1/repro2013/level2''])"
    by (simp add: sample_env_def)
  have h4: "level sample_state = Some ''level2''"
    by (simp add: sample_state_def)
  have h5: "s3_ls sample_env
      (ucar_daydir ''ucar-earth-ro-archive/cosmic1/repro2013''
         (path_tail ''ucar-earth-ro-archive/cosmic1/repro2013/level1b'') ''level2'' 2009 2) =
      Inr [''ucar-earth-ro-archive/cosmic1/repro2013/level2/2009/002/wetPrf'',
           ''ucar-earth-ro-archive/cosmic1/repro2013/level2/2009/002/wetPf2'']"
    by code_simp
  have h6: "length (select_type_subdirs ''level2b''
     [''ucar-earth-ro-archive/cosmic1/repro2013/level2/2009/002/wetPrf'',
      ''ucar-earth-ro-archive/cosmic1/repro2013/level2/2009/002/wetPf2'']) \<noteq> 1"
    by code_simp
  note A = level2b_selection
    [where sds = "[''repro2013/level2/2009/003/wetPf2'', ''repro2013/level2/2009/003/wetPrf'']"
       and env = sample_env and year = 2009 and doy = 1 and date = "''2009-01-01''"
       and mission = "''cosmic1''"
       and processingVersion = "''ucar-earth-ro-archive/cosmic1/repro2013''"
       and st = sample_state]
  note B = level2b_selection
    [where sds = "[''ucar-earth-ro-archive/cosmic1/repro2013/level2/2009/002/wetPrf'',
                   ''ucar-earth-ro-archive/cosmic1/repro2013/level2/2009/002/wetPf2'']"
       and env = sample_env and year = 2009 and doy = 2 and date = "''2009-01-02''"
       and mission = "''cosmic1''"
       and processingVersion = "''ucar-earth-ro-archive/cosmic1/repro2013''"
       and st = sample_state
       and first = "''ucar-earth-ro-archive/cosmic1/repro2013/level1b''"
       and others = "[''ucar-earth-ro-archive/cosmic1/repro2013/level2'']"
       and lvl = "''level2''"]
  from A h1 have c1: "select_type_subdirs ''level2b''
     [''repro2013/level2/2009/003/wetPf2'', ''repro2013/level2/2009/003/wetPrf''] =
   level2b_claimed
     [''repro2013/level2/2009/003/wetPf2'', ''repro2013/level2/2009/003/wetPrf'']"
    by blast
  from A h2 have c2: "\<exists>sds'. subdirs (snd (ucar_version sample_env 2009 1 ''2009-01-01''
        ''cosmic1'' ''level2b'' ''ucar-earth-ro-archive/cosmic1/repro2013'' sample_state)) =
        Some sds' \<and> length (select_type_subdirs ''level2b'' sds') = 1"
    by blast
  from B h3 h4 h5 h6 have c3: "ucar_version sample_env 2009 2 ''2009-01-02'' ''cosmic1''
     ''level2b'' ''ucar-earth-ro-archive/cosmic1/repro2013'' sample_state =
     (Next,
      sample_state
        \<lparr> scanned := scanned sample_state @
            [''ucar-earth-ro-archive/cosmic1/repro2013'',
             ucar_daydir ''ucar-earth-ro-archive/cosmic1/repro2013''
               (path_tail ''ucar-earth-ro-archive/cosmic1/repro2013/level1b'') ''level2'' 2009 2],
          subdirs := Some [''ucar-earth-ro-archive/cosmic1/repro2013/level2/2009/002/wetPrf'',
                           ''ucar-earth-ro-archive/cosmic1/repro2013/level2/2009/002/wetPf2''],
          dlog := dlog sample_state @ [LogInfo ''type_subdirs !=1''] \<rparr>)"
    by blast
  show ?thesis
    using h1 c1 h2 c2 h6 c3 by (intro conjI)
qed

section \<open>The job definitions as a JSON document\<close>

text \<open>
  \<^verbatim>\<open>json.load\<close> after \<^verbatim>\<open>json.dump\<close> gives back every value that \<^verbatim>\<open>json.dump\<close>
  accepts, and \<^verbatim>\<open>json.dump\<close> accepts every native value.
\<close>

lemma all_or_raise_map:
  "all_or_raise (map f xs) = Inr ys \<Longrightarrow> list_all2 (\<lambda>x y. f x = Inr y) xs ys"
proof (induction xs arbitrary: ys)
  case Nil
  then show ?case by simp
next
  case (Cons x xs)
  then show ?case
    by (cases "f x"; cases "all_or_raise (map f xs)") auto
qed

lemma all_or_raise_total:
  "(\<forall>x \<in> set xs. \<exists>y. f x = Inr y) \<Longrightarrow> \<exists>ys. all_or_raise (map f xs) = Inr ys"
proof (induction xs)
  case Nil
  then show ?case by simp
next
  case (Cons x xs)
  then obtain y ys where "f x = Inr y" "all_or_raise (map f xs) = Inr ys" by auto
  then show ?case by simp
qed

lemma json_roundtrip:
  "json_dump v = Inr d \<Longrightarrow> json_load d = v"
proof (induction v arbitrary: d)
  case (PList xs)
  then obtain ds where ds: "all_or_raise (map json_dump xs) = Inr ds" "d = JArray ds"
    by (cases "all_or_raise (map json_dump xs)") auto
  from all_or_raise_map [OF ds(1)] have "map json_load ds = xs"
    using PList.IH
    by (induction xs ds rule: list_all2_induct) auto
  with ds show ?case by simp
next
  case (PDict kvs)
  let ?f = "\<lambda>kv. map_sum id (\<lambda>d. (fst kv, d)) (json_dump (snd kv))"
  from PDict.prems obtain ds where ds: "all_or_raise (map ?f kvs) = Inr ds" "d = JObject ds"
    by (cases "all_or_raise (map ?f kvs)") auto
  have IH: "\<forall>kv \<in> set kvs. \<forall>d. json_dump (snd kv) = Inr d \<longrightarrow> json_load d = snd kv"
  proof (intro ballI allI impI)
    fix kv d assume "kv \<in> set kvs" "json_dump (snd kv) = Inr d"
    moreover have "snd kv \<in> Basic_BNFs.snds kv"
      by (cases kv) (simp add: prod_set_simps)
    ultimately show "json_load d = snd kv"
      using PDict.IH [of kv "snd kv" d] by simp
  qed
  from all_or_raise_map [OF ds(1)] IH
  have "map (\<lambda>kv. (fst kv, json_load (snd kv))) ds = kvs"
  proof (induction kvs ds rule: list_all2_induct)
    case Nil
    then show ?case by simp
  next
    case (Cons x xs y ys)
    from Cons.hyps(1) obtain dv where dv: "json_dump (snd x) = Inr dv" "y = (fst x, dv)"
      by (cases "json_dump (snd x)") auto
    have "json_load dv = snd x" using Cons.prems dv by simp
    moreover have "map (\<lambda>kv. (fst kv, json_load (snd kv))) ys = xs"
      using Cons.IH Cons.prems by simp
    ultimately show ?case using dv by simp
  qed
  with ds show ?case by simp
qed simp_all

lemma json_dump_native:
  "native v \<Longrightarrow> \<exists>d. json_dump v = Inr d"
proof (induction v)
  case (PList xs)
  then have "\<forall>x \<in> set xs. \<exists>d. json_dump x = Inr d" by (simp add: list_all_iff)
  from all_or_raise_total [OF this] show ?case by auto
next
  case (PDict kvs)
  let ?f = "\<lambda>kv. map_sum id (\<lambda>d. (fst kv, d)) (json_dump (snd kv))"
  have "\<forall>kv \<in> set kvs. \<exists>y. ?f kv = Inr y"
  proof
    fix kv assume kv: "kv \<in> set kvs"
    obtain k v where e: "kv = (k, v)" by (cases kv)
    have "native v" using PDict.prems kv e by (auto simp: list_all_iff)
    moreover have "v \<in> Basic_BNFs.snds kv" by (simp add: e prod_set_simps)
    ultimately obtain d where "json_dump v = Inr d" using PDict.IH [of kv v] kv by auto
    then show "\<exists>y. ?f kv = Inr y" using e by simp
  qed
  from all_or_raise_total [OF this] show ?case by auto
qed simp_all

text \<open>
  Every job that \<^verbatim>\<open>definejobs\<close> appends is a dictionary of strings and one integer,
  so the list of jobs stays native through every loop of the sweep.
\<close>

lemma native_jobs_simps [simp]:
  "native_jobs (log_msg m st) = native_jobs st"
  "native_jobs (st\<lparr> scanned := sc \<rparr>) = native_jobs st"
  "native_jobs (st\<lparr> subdirs := sd \<rparr>) = native_jobs st"
  "native_jobs (st\<lparr> level := lv \<rparr>) = native_jobs st"
  "native_jobs (st\<lparr> jpl_file_type := jf \<rparr>) = native_jobs st"
  "native_jobs (st\<lparr> UCARprefix := p \<rparr>) = native_jobs st"
  "native_jobs (st\<lparr> ROMSAFprefix := p \<rparr>) = native_jobs st"
  "native_jobs (st\<lparr> JPLprefix := p \<rparr>) = native_jobs st"
  "native_jobs (st\<lparr> EUMETSATprefix := p \<rparr>) = native_jobs st"
  "native_jobs (append_job job st) = (native_jobs st \<and> native job)"
  by (auto simp: native_jobs_def log_msg_def append_job_def)

lemma native_job [simp]:
  "native (ucar_job a b c d e n)" "native (dated_job a b c d e n)"
  by (simp_all add: ucar_job_def dated_job_def)

lemma do_ls_native:
  "do_ls env path st = (r, st') \<Longrightarrow> native_jobs st' = native_jobs st"
  by (auto simp: do_ls_def)

lemma for_each_native:
  assumes "\<And>x st c st'. body x st = (c, st') \<Longrightarrow> native_jobs st \<longrightarrow> native_jobs st'"
    and "for_each body xs st = (c, st')"
  shows "native_jobs st \<longrightarrow> native_jobs st'"
  using assms(2)
proof (induction xs arbitrary: st)
  case Nil
  then show ?case by simp
next
  case (Cons x xs)
  obtain c1 st1 where b: "body x st = (c1, st1)" by (cases "body x st")
  have n1: "native_jobs st \<longrightarrow> native_jobs st1" using assms(1) b by blast
  show ?case
  proof (cases c1)
    case Next
    then show ?thesis using Cons.IH [of st1] Cons.prems b n1 by simp
  next
    case Break
    then show ?thesis using n1 Cons.prems b by simp
  next
    case (Throw e)
    then show ?thesis using n1 Cons.prems b by simp
  qed
qed

lemma ucar_version_native:
  "ucar_version env year doy date mission file_type pv st = (c, st') \<Longrightarrow>
   native_jobs st \<longrightarrow> native_jobs st'"
  by (auto simp: ucar_version_def Let_def
      split: prod.splits sum.splits list.splits option.splits if_splits
      dest!: do_ls_native)

lemma for_each_ucar_version:
  "for_each (ucar_version env year doy date mission file_type) xs st = (c, st') \<Longrightarrow>
   native_jobs st \<longrightarrow> native_jobs st'"
  by (rule for_each_native [where body = "ucar_version env year doy date mission file_type"])
     (rule ucar_version_native)

lemma ucar_mission_native:
  "ucar_mission env year doy date mission file_type um st = (c, st') \<Longrightarrow>
   native_jobs st \<longrightarrow> native_jobs st'"
  by (auto simp: ucar_mission_def
      split: prod.splits sum.splits option.splits
      dest!: do_ls_native for_each_ucar_version)

lemma for_each_ucar_mission:
  "for_each (ucar_mission env year doy date mission file_type) xs st = (c, st') \<Longrightarrow>
   native_jobs st \<longrightarrow> native_jobs st'"
  by (rule for_each_native [where body = "ucar_mission env year doy date mission file_type"])
     (rule ucar_mission_native)

lemma ucar_file_type_native:
  "ucar_file_type env year doy date mission file_type st = (c, st') \<Longrightarrow>
   native_jobs st \<longrightarrow> native_jobs st'"
  by (auto simp: ucar_file_type_def Let_def
      split: sum.splits if_splits
      dest!: for_each_ucar_mission)

lemma for_each_ucar_file_type:
  "for_each (ucar_file_type env year doy date mission) xs st = (c, st') \<Longrightarrow>
   native_jobs st \<longrightarrow> native_jobs st'"
  by (rule for_each_native [where body = "ucar_file_type env year doy date mission"])
     (rule ucar_file_type_native)

lemma ucar_branch_native:
  "ucar_branch env liveupdate year doy date file_types mission st = (c, st') \<Longrightarrow>
   native_jobs st \<longrightarrow> native_jobs st'"
  by (auto simp: ucar_branch_def bucket_def
      split: sum.splits if_splits option.splits pyval.splits
      dest!: for_each_ucar_file_type)

lemma romsaf_job_native [simp]:
  "native_jobs (romsaf_job date mission file_type path fullpath paths st) = native_jobs st"
  by (simp add: romsaf_job_def Let_def)

lemma romsaf_file_type_native:
  "romsaf_file_type env nonnominal year month day mission file_type st = (c, st') \<Longrightarrow>
   native_jobs st \<longrightarrow> native_jobs st'"
  by (auto simp: romsaf_file_type_def Let_def
      split: prod.splits sum.splits option.splits if_splits
      dest!: do_ls_native)

lemma for_each_romsaf_file_type:
  "for_each (romsaf_file_type env nonnominal year month day mission) xs st = (c, st') \<Longrightarrow>
   native_jobs st \<longrightarrow> native_jobs st'"
  by (rule for_each_native [where body = "romsaf_file_type env nonnominal year month day mission"])
     (rule romsaf_file_type_native)

lemma romsaf_mission_native:
  "romsaf_mission env liveupdate nonnominal year month day file_types mission rm st = (c, st') \<Longrightarrow>
   native_jobs st \<longrightarrow> native_jobs st'"
  by (auto simp: romsaf_mission_def Let_def
      split: prod.splits sum.splits option.splits if_splits
      dest!: do_ls_native for_each_romsaf_file_type)

lemma for_each_romsaf_mission:
  "for_each (romsaf_mission env liveupdate nonnominal year month day file_types mission) xs st = (c, st') \<Longrightarrow>
   native_jobs st \<longrightarrow> native_jobs st'"
  by (rule for_each_native [where body = "romsaf_mission env liveupdate nonnominal year month day file_types mission"])
     (rule romsaf_mission_native)

lemma romsaf_branch_native:
  "romsaf_branch env liveupdate nonnominal year month day file_types mission st = (c, st') \<Longrightarrow>
   native_jobs st \<longrightarrow> native_jobs st'"
  by (auto simp: romsaf_branch_def bucket_def
      split: sum.splits if_splits option.splits pyval.splits
      dest!: for_each_romsaf_mission)

lemma jpl_file_type_body_native:
  "jpl_file_type_body env year month day mission file_type st = (c, st') \<Longrightarrow>
   native_jobs st \<longrightarrow> native_jobs st'"
  by (auto simp: jpl_file_type_body_def Let_def
      split: prod.splits sum.splits option.splits if_splits
      dest!: do_ls_native)

lemma for_each_jpl_file_type_body:
  "for_each (jpl_file_type_body env year month day mission) xs st = (c, st') \<Longrightarrow>
   native_jobs st \<longrightarrow> native_jobs st'"
  by (rule for_each_native [where body = "jpl_file_type_body env year month day mission"])
     (rule jpl_file_type_body_native)

lemma jpl_branch_native:
  "jpl_branch env liveupdate year month day file_types mission st = (c, st') \<Longrightarrow>
   native_jobs st \<longrightarrow> native_jobs st'"
  by (auto simp: jpl_branch_def bucket_def
      split: sum.splits if_splits option.splits pyval.splits
      dest!: for_each_jpl_file_type_body)

lemma eumetsat_version_native:
  "eumetsat_version env year doy date mission file_type pv st = (c, st') \<Longrightarrow>
   native_jobs st \<longrightarrow> native_jobs st'"
  by (auto simp: eumetsat_version_def Let_def
      split: prod.splits sum.splits list.splits option.splits if_splits
      dest!: do_ls_native)

lemma for_each_eumetsat_version:
  "for_each (eumetsat_version env year doy date mission file_type) xs st = (c, st') \<Longrightarrow>
   native_jobs st \<longrightarrow> native_jobs st'"
  by (rule for_each_native [where body = "eumetsat_version env year doy date mission file_type"])
     (rule eumetsat_version_native)

lemma eumetsat_mission_native:
  "eumetsat_mission env year doy date mission file_type em st = (c, st') \<Longrightarrow>
   native_jobs st \<longrightarrow> native_jobs st'"
  by (auto simp: eumetsat_mission_def
      split: prod.splits sum.splits option.splits
      dest!: do_ls_native for_each_eumetsat_version)

lemma for_each_eumetsat_mission:
  "for_each (eumetsat_mission env year doy date mission file_type) xs st = (c, st') \<Longrightarrow>
   native_jobs st \<longrightarrow> native_jobs st'"
  by (rule for_each_native [where body = "eumetsat_mission env year doy date mission file_type"])
     (rule eumetsat_mission_native)

lemma eumetsat_file_type_native:
  "eumetsat_file_type env year doy date mission file_type st = (c, st') \<Longrightarrow>
   native_jobs st \<longrightarrow> native_jobs st'"
  by (auto simp: eumetsat_file_type_def Let_def
      split: sum.splits if_splits
      dest!: for_each_eumetsat_mission)

lemma for_each_eumetsat_file_type:
  "for_each (eumetsat_file_type env year doy date mission) xs st = (c, st') \<Longrightarrow>
   native_jobs st \<longrightarrow> native_jobs st'"
  by (rule for_each_native [where body = "eumetsat_file_type env year doy date mission"])
     (rule eumetsat_file_type_native)

lemma eumetsat_branch_native:
  "eumetsat_branch env liveupdate year doy date file_types mission st = (c, st') \<Longrightarrow>
   native_jobs st \<longrightarrow> native_jobs st'"
  by (auto simp: eumetsat_branch_def bucket_def
      split: sum.splits if_splits option.splits pyval.splits
      dest!: for_each_eumetsat_file_type)

lemma and_then_native:
  assumes "and_then r f = (c, st')"
    and "native_jobs st \<longrightarrow> native_jobs (snd r)"
    and "\<And>st c st'. f st = (c, st') \<Longrightarrow> native_jobs st \<longrightarrow> native_jobs st'"
  shows "native_jobs st \<longrightarrow> native_jobs st'"
proof (cases r)
  case (Pair c1 st1)
  show ?thesis
  proof (cases c1)
    case Next
    then show ?thesis using assms Pair by (auto simp: and_then_def)
  next
    case Break
    then show ?thesis using assms(1,2) Pair by (auto simp: and_then_def)
  next
    case (Throw e)
    then show ?thesis using assms(1,2) Pair by (auto simp: and_then_def)
  qed
qed

lemma mission_body_native:
  assumes "mission_body env liveupdate nonnominal processing_centers file_types date mission st =
           (c, st')"
  shows "native_jobs st \<longrightarrow> native_jobs st'"
proof -
  obtain year month day where ymd: "ord2ymd date = (year, month, day)"
    by (cases "ord2ymd date")
  define valid where "valid = (mission \<in> set (valid_missions_aws env))"
  define u where "u = (if ''ucar'' \<in> set processing_centers \<and> valid
            then ucar_branch env liveupdate year (date - days_before_year year)
                   (iso_date year month day) file_types mission st
            else (Next, st))"
  define r where "r = (\<lambda>st. if ''romsaf'' \<in> set processing_centers \<and> valid
            then romsaf_branch env liveupdate nonnominal year month day file_types mission st
            else (Next, st))"
  define j where "j = (\<lambda>st. if ''jpl'' \<in> set processing_centers \<and> valid
            then jpl_branch env liveupdate year month day file_types mission st
            else (Next, st))"
  define e where "e = (\<lambda>st. if ''eumetsat'' \<in> set processing_centers \<and> valid
            then eumetsat_branch env liveupdate year (date - days_before_year year)
                   (iso_date year month day) file_types mission st
            else (Next, st))"
  have eq: "and_then (and_then (and_then u r) j) e = (c, st')"
    using assms by (simp add: mission_body_def ymd Let_def u_def r_def j_def e_def valid_def)
  have U: "native_jobs st \<longrightarrow> native_jobs (snd u)"
    using ucar_branch_native [of env liveupdate year "date - days_before_year year"
        "iso_date year month day" file_types mission st "fst u" "snd u"]
    by (simp add: u_def)
  have R: "\<And>st c st'. r st = (c, st') \<Longrightarrow> native_jobs st \<longrightarrow> native_jobs st'"
    using romsaf_branch_native by (auto simp: r_def split: if_splits)
  have J: "\<And>st c st'. j st = (c, st') \<Longrightarrow> native_jobs st \<longrightarrow> native_jobs st'"
    using jpl_branch_native by (auto simp: j_def split: if_splits)
  have E: "\<And>st c st'. e st = (c, st') \<Longrightarrow> native_jobs st \<longrightarrow> native_jobs st'"
    using eumetsat_branch_native by (auto simp: e_def split: if_splits)
  have 1: "native_jobs st \<longrightarrow> native_jobs (snd (and_then u r))"
    by (rule and_then_native [of u r "fst (and_then u r)"]) (simp_all add: U R)
  have 2: "native_jobs st \<longrightarrow> native_jobs (snd (and_then (and_then u r) j))"
    by (rule and_then_native [of "and_then u r" j "fst (and_then (and_then u r) j)"])
       (simp_all add: 1 J)
  show ?thesis
    by (rule and_then_native [OF eq 2 E])
qed

lemma for_each_mission_body:
  "for_each (mission_body env liveupdate nonnominal processing_centers file_types date) xs st =
     (c, st') \<Longrightarrow>
   native_jobs st \<longrightarrow> native_jobs st'"
  by (rule for_each_native
        [where body = "mission_body env liveupdate nonnominal processing_centers file_types date"])
     (rule mission_body_native)

lemma date_loop_native:
  "date_loop env liveupdate nonnominal missions processing_centers file_types date lastday st =
     (c, st') \<Longrightarrow>
   native_jobs st \<longrightarrow> native_jobs st'"
proof (induction env liveupdate nonnominal missions processing_centers file_types date lastday st
    rule: date_loop.induct)
  case (1 env liveupdate nonnominal missions processing_centers file_types date lastday st)
  show ?case
  proof (cases "date \<le> lastday")
    case False
    then show ?thesis using "1.prems" by (simp add: date_loop.simps)
  next
    case True
    obtain c1 st1 where f: "for_each (mission_body env liveupdate nonnominal processing_centers
        file_types date) missions st = (c1, st1)"
      by (cases "for_each (mission_body env liveupdate nonnominal processing_centers
        file_types date) missions st")
    have n1: "native_jobs st \<longrightarrow> native_jobs st1"
      using for_each_mission_body [OF f] .
    show ?thesis
    proof (cases "(\<exists>e. c1 = Throw e) \<or> date \<ge> max_ordinal")
      case True
      then have "st' = st1"
        using "1.prems" f \<open>date \<le> lastday\<close>
        by (subst (asm) date_loop.simps) (auto split: ctl.splits if_splits)
      then show ?thesis using n1 by simp
    next
      case False
      then have c1: "\<forall>e. c1 \<noteq> Throw e" and d: "\<not> date \<ge> max_ordinal" by auto
      have rec: "date_loop env liveupdate nonnominal missions processing_centers file_types
          (date + 1) lastday st1 = (c, st')"
        using "1.prems" f c1 d \<open>date \<le> lastday\<close>
        by (subst (asm) date_loop.simps) (auto split: ctl.splits if_splits)
      have "native_jobs st1 \<longrightarrow> native_jobs st'"
        using "1.IH" [OF \<open>date \<le> lastday\<close> f [symmetric] _ d rec] c1 by (cases c1) auto
      then show ?thesis using n1 by simp
    qed
  qed
qed

text \<open>
  Claim C9. Whatever \<^verbatim>\<open>definejobs\<close> returns (the dictionary of prefixes and jobs, or
  the integer 1), \<^verbatim>\<open>json.dump\<close> accepts it, and \<^verbatim>\<open>json.load\<close> of the document
  gives back the same value: the same prefixes and the same jobs, with every field and
  in the same order. The document is the tree that the JSON text denotes.
\<close>

theorem definejobs_json_roundtrip:
  assumes "fst (definejobs env daterange missions processing_centers file_types version
                  UCARarg ROMSAFarg JPLarg EUMETSATarg nonnominal sess liveupdate) =
           Inr job_definitions"
  shows "\<exists>document. json_dump job_definitions = Inr document \<and>
                    json_load document = job_definitions"
proof -
  have "native job_definitions"
  proof -
    let ?st0 = "\<lparr> UCARprefix = UCARarg, ROMSAFprefix = ROMSAFarg, JPLprefix = JPLarg,
                    EUMETSATprefix = EUMETSATarg, level = None, jpl_file_type = None,
                    subdirs = None, joblist = [], dlog = [], scanned = [] \<rparr>"
    obtain c st where dl: "date_loop env liveupdate nonnominal missions processing_centers
        file_types (fst daterange) (snd daterange) ?st0 = (c, st)"
      by (cases "date_loop env liveupdate nonnominal missions processing_centers
        file_types (fst daterange) (snd daterange) ?st0")
    have "native_jobs ?st0" by (simp add: native_jobs_def)
    with date_loop_native [OF dl] have n: "list_all native (joblist st)"
      by (simp add: native_jobs_def)
    show ?thesis
      using assms n dl
      by (auto simp: definejobs_def Let_def split: option.splits ctl.splits)
  qed
  then obtain document where "json_dump job_definitions = Inr document"
    using json_dump_native by blast
  then show ?thesis using json_roundtrip by blast
qed

theorem definejobs_json_roundtrip_witness:
  "fst (definejobs sample_env (733408, 733408) [''cosmic1''] [''ucar''] [''level2b''] PNone
          None None None None False (Some sample_session) False) =
     Inr (PDict
       [(''prefixes'', PDict [(''ucar'', PStr ''s3://ucar-earth-ro-archive'')]),
        (''jobs'', PList
           [PDict [(''file_type'', PStr ''level2b''), (''processing_center'', PStr ''ucar''),
                   (''mission'', PStr ''cosmic1''), (''date'', PStr ''2009-01-01''),
                   (''input_relative_dir'', PStr ''cosmic1/repro2013/level2/2009/001/wetPrf''),
                   (''nfiles'', PInt 1)]])]) \<and>
   (\<exists>document.
      json_dump (PDict
       [(''prefixes'', PDict [(''ucar'', PStr ''s3://ucar-earth-ro-archive'')]),
        (''jobs'', PList
           [PDict [(''file_type'', PStr ''level2b''), (''processing_center'', PStr ''ucar''),
                   (''mission'', PStr ''cosmic1''), (''date'', PStr ''2009-01-01''),
                   (''input_relative_dir'', PStr ''cosmic1/repro2013/level2/2009/001/wetPrf''),
                   (''nfiles'', PInt 1)]])]) = Inr document \<and>
      json_load document = PDict
       [(''prefixes'', PDict [(''ucar'', PStr ''s3://ucar-earth-ro-archive'')]),
        (''jobs'', PList
           [PDict [(''file_type'', PStr ''level2b''), (''processing_center'', PStr ''ucar''),
                   (''mission'', PStr ''cosmic1''), (''date'', PStr ''2009-01-01''),
                   (''input_relative_dir'', PStr ''cosmic1/repro2013/level2/2009/001/wetPrf''),
                   (''nfiles'', PInt 1)]])])"
proof -
  have d: "fst (definejobs sample_env (733408, 733408) [''cosmic1''] [''ucar''] [''level2b''] PNone
          None None None None False (Some sample_session) False) =
     Inr (PDict
       [(''prefixes'', PDict [(''ucar'', PStr ''s3://ucar-earth-ro-archive'')]),
        (''jobs'', PList
           [PDict [(''file_type'', PStr ''level2b''), (''processing_center'', PStr ''ucar''),
                   (''mission'', PStr ''cosmic1''), (''date'', PStr ''2009-01-01''),
                   (''input_relative_dir'', PStr ''cosmic1/repro2013/level2/2009/001/wetPrf''),
                   (''nfiles'', PInt 1)]])])"
    by code_simp
  show ?thesis
    using d definejobs_json_roundtrip [OF d] by blast
qed

text \<open>The same for the document that \<^verbatim>\<open>createjobdefinitionsjson\<close> writes.\<close>

lemma createjobdefinitionsjson_roundtrip:
  assumes "createjobdefinitionsjson env daterange missions processing_centers file_types version
             UCARarg ROMSAFarg JPLarg EUMETSATarg sess = Inr document"
  shows "fst (definejobs env daterange missions processing_centers file_types version
                UCARarg ROMSAFarg JPLarg EUMETSATarg False sess False) =
         Inr (json_load document)"
  using assms json_roundtrip
  by (auto simp: createjobdefinitionsjson_def split: sum.splits)

end
